theory Spec2Isabelle
  imports Main "HOL-Library.Word"
begin

section \<open>Strings, thrown values and data of \<^verbatim>\<open>src/index.ts\<close>\<close>

text \<open>
  A JavaScript string is a sequence of 16-bit code units; \<open>jsstring\<close> is exactly that.
  \<open>ascii\<close> turns an ASCII literal into its code units; text outside ASCII (the Chinese
  messages of the source) is written as the list of its code units.
\<close>

type_synonym jsstring = "16 word list"

definition ascii :: "string \<Rightarrow> jsstring" where
  "ascii s = map (\<lambda>c. of_nat (of_char c)) s"

text \<open>
  What a \<^verbatim>\<open>throw\<close> (or a rejected promise) carries. \<open>LoginError\<close> and \<open>OCRError\<close> are
  the two classes of the source; \<open>TypeError\<close> (a failed \<^verbatim>\<open>fetch\<close>, an invalid URL),
  \<open>SyntaxError\<close> (\<^verbatim>\<open>res.json()\<close> on a body that is not JSON) and \<open>URIError\<close> are the
  platform's. \<open>Thrown s\<close> is a thrown value that is not an instance of \<^verbatim>\<open>Error\<close>, given by
  its \<^verbatim>\<open>String(...)\<close> form (\<^verbatim>\<open>null\<close> is \<open>Thrown (ascii ''null'')\<close>).
\<close>

datatype js_error =
    LoginError jsstring
  | OCRError jsstring
  | TypeError jsstring
  | SyntaxError jsstring
  | URIError jsstring
  | Thrown jsstring

fun instanceof_Error :: "js_error \<Rightarrow> bool" where
  "instanceof_Error (Thrown s) = False"
| "instanceof_Error e = True"

text \<open>
  \<^verbatim>\<open>String(e)\<close>. For an \<^verbatim>\<open>Error\<close> it is the name alone when the message is empty, and
  the name, a colon, a space and the message otherwise.
\<close>

definition named :: "string \<Rightarrow> jsstring \<Rightarrow> jsstring" where
  "named name m = (if m = [] then ascii name else ascii name @ ascii '': '' @ m)"

fun String_of :: "js_error \<Rightarrow> jsstring" where
  "String_of (LoginError m) = named ''LoginError'' m"
| "String_of (OCRError m) = named ''OCRError'' m"
| "String_of (TypeError m) = named ''TypeError'' m"
| "String_of (SyntaxError m) = named ''SyntaxError'' m"
| "String_of (URIError m) = named ''URIError'' m"
| "String_of (Thrown s) = s"

text \<open>\<^verbatim>\<open>enum Role\<close>: the value of a member is its Chinese name.\<close>

datatype Role = Student | Teacher | Assistant

fun Role_value :: "Role \<Rightarrow> jsstring" where
  "Role_value Student = [0x5B66, 0x751F]"
| "Role_value Teacher = [0x6559, 0x5E08]"
| "Role_value Assistant = [0x52A9, 0x6559]"

record userInfo =
  access_token :: jsstring
  token_type :: jsstring
  refresh_token :: jsstring
  expires_in :: int
  scope :: jsstring
  tenant_id :: jsstring
  license :: jsstring
  loginId :: jsstring
  user_id :: jsstring
  user_name :: jsstring
  real_name :: jsstring
  avatar :: jsstring
  dept_id :: jsstring
  client_id :: jsstring
  account :: jsstring
  jti :: jsstring

record roleInfo =
  id :: jsstring
  roleId :: jsstring
  roleAliase :: jsstring
  roleName :: Role
  domainId :: jsstring
  domainName :: jsstring

record ocr_options =
  token :: jsstring
  maxRetries :: "int option"

record loginOptions =
  role :: "Role option"
  onCaptcha :: "(jsstring \<Rightarrow> jsstring \<Rightarrow> js_error + jsstring) option"
  ocr :: "ocr_options option"

section \<open>Requests, responses and the network\<close>

text \<open>
  The \<^verbatim>\<open>init\<close> of a \<^verbatim>\<open>fetch\<close> with its URL. \<open>req_method\<close> is the field \<^verbatim>\<open>method\<close>
  (\<^verbatim>\<open>GET\<close> when the source leaves it out).
\<close>

datatype http_method = GET | POST

datatype request_body = Text jsstring | FormData "(jsstring \<times> jsstring) list"

record request =
  req_method :: http_method
  url :: jsstring
  headers :: "(jsstring \<times> jsstring) list"
  body :: "request_body option"
  redirect_manual :: bool

text \<open>
  A response, with the two headers the source reads. \<open>body_text\<close> is \<^verbatim>\<open>await res.text()\<close>
  (the body is taken as received in full); \<open>json\<close> is \<^verbatim>\<open>await res.json()\<close>, typed as the
  source casts it (\<open>Inl m\<close>: the body is not JSON and the call rejects with a
  \<^verbatim>\<open>SyntaxError\<close> of message \<open>m\<close>).
\<close>

record 'p response =
  status :: nat
  statusText :: jsstring
  set_cookie :: "jsstring option"
  location :: "jsstring option"
  body_text :: jsstring
  json :: "jsstring + 'p"

definition ok :: "'p response \<Rightarrow> bool" where
  "ok res = (200 \<le> status res \<and> status res \<le> 299)"

text \<open>
  The outcome of one \<^verbatim>\<open>fetch\<close>: the promise rejects (always with a \<^verbatim>\<open>TypeError\<close>) or
  resolves with a response.
\<close>

datatype 'p outcome = Rejected jsstring | Resolved "'p response"

text \<open>
  The network is scripted: the \<open>n\<close>-th request of a run (counting from 0, over all
  hosts) receives the \<open>n\<close>-th outcome of the script of the host it addresses. The scripts
  are arbitrary, so every behaviour of the four services is covered. The state threaded
  through the model is the log of the requests issued so far.
\<close>

type_synonym 'p script = "nat \<Rightarrow> 'p outcome"

definition fetch :: "'p script \<Rightarrow> request \<Rightarrow> request list \<Rightarrow> (js_error + 'p response) \<times> request list" where
  "fetch script req log =
     ((case script (length log) of
         Rejected m \<Rightarrow> Inl (TypeError m)
       | Resolved res \<Rightarrow> Inr res),
      log @ [req])"

text \<open>
  The payload of the OCR service, \<^verbatim>\<open>{ text?: string, detail?: string }\<close>; \<open>ocr_text\<close> is
  its field \<^verbatim>\<open>text\<close>.
\<close>

record ocr_data =
  ocr_text :: "jsstring option"
  detail :: "jsstring option"

text \<open>
  The environment of a run: the scripts of the four services, and the platform functions
  the source calls. \<open>Math_random_toString\<close> is the value of
  \<^verbatim>\<open>Math.random().toString()\<close>; \<open>URL_search s\<close> is \<^verbatim>\<open>new URL(s).search\<close> (\<open>None\<close>: the
  constructor throws a \<^verbatim>\<open>TypeError\<close>); \<open>URLSearchParams_get q k\<close> is
  \<^verbatim>\<open>new URLSearchParams(q).get(k)\<close>; \<open>URLSearchParams_toString\<close> is the serialisation
  of \<^verbatim>\<open>new URLSearchParams({...})\<close>; \<open>encodeURIComponent\<close> rejects a lone surrogate with
  a \<^verbatim>\<open>URIError\<close>.
\<close>

text \<open>The envelope of the role listing, of which the source reads \<^verbatim>\<open>["data"]\<close>.\<close>

record role_envelope =
  data :: "roleInfo list"

record env =
  sso :: "unit script"
  ocr_service :: "ocr_data script"
  oauth :: "userInfo script"
  role_listing :: "role_envelope script"
  Math_random_toString :: jsstring
  URL_search :: "jsstring \<Rightarrow> jsstring option"
  URLSearchParams_get :: "jsstring \<Rightarrow> jsstring \<Rightarrow> jsstring option"
  URLSearchParams_toString :: "(jsstring \<times> jsstring) list \<Rightarrow> jsstring"
  encodeURIComponent :: "jsstring \<Rightarrow> jsstring + jsstring"

text \<open>Decimal rendering of a status code, as string concatenation with a number does.\<close>

fun digits :: "nat \<Rightarrow> jsstring" where
  "digits n = (if n < 10 then [of_nat (48 + n)] else digits (n div 10) @ [of_nat (48 + n mod 10)])"

declare digits.simps [simp del]

section \<open>\<^verbatim>\<open>getUserRoles\<close> and \<^verbatim>\<open>refresh\<close>\<close>

definition basic_auth :: "jsstring \<times> jsstring" where
  "basic_auth = (ascii ''authorization'', ascii ''Basic cG9ydGFsOnBvcnRhbF9zZWNyZXQ='')"

definition oauth_token_url :: jsstring where
  "oauth_token_url = ascii ''https://apiucloud.bupt.edu.cn/ykt-basics/oauth/token''"

definition listByUserId_url :: jsstring where
  "listByUserId_url = ascii ''https://apiucloud.bupt.edu.cn/ykt-basics/userroledomaindept/listByUserId''"

definition roles_request :: "jsstring \<Rightarrow> request" where
  "roles_request tok =
     \<lparr>req_method = GET, url = listByUserId_url,
      headers = [basic_auth, (ascii ''Blade-Auth'', tok)],
      body = None, redirect_manual = False\<rparr>"

text \<open>The message \<^verbatim>\<open>`<what>: ${res.status} ${res.statusText}`\<close>.\<close>

definition status_line :: "'p response \<Rightarrow> jsstring" where
  "status_line res = digits (status res) @ ascii '' '' @ statusText res"

definition roles_failed :: jsstring where
  "roles_failed = [0x83B7, 0x53D6, 0x7528, 0x6237, 0x89D2, 0x8272, 0x5931, 0x8D25] @ ascii '': ''"

definition getUserRoles :: "env \<Rightarrow> jsstring \<Rightarrow> request list \<Rightarrow> (js_error + roleInfo list) \<times> request list" where
  "getUserRoles E tok log =
     (case fetch (role_listing E) (roles_request tok) log of
        (Inl e, log') \<Rightarrow> (Inl e, log')
      | (Inr res, log') \<Rightarrow>
          if \<not> ok res then (Inl (LoginError (roles_failed @ status_line res)), log')
          else (case json res of
                  Inl m \<Rightarrow> (Inl (SyntaxError m), log')
                | Inr envelope \<Rightarrow> (Inr (data envelope), log')))"

definition refresh_failed :: jsstring where
  "refresh_failed = [0x5237, 0x65B0] @ ascii '' token '' @ [0x5931, 0x8D25] @ ascii '': ''"

definition no_such_role :: jsstring where
  "no_such_role = [0x7528, 0x6237, 0x4E0D, 0x5B58, 0x5728, 0x89D2, 0x8272] @ ascii '' ''"

definition refresh_request :: "jsstring \<Rightarrow> jsstring option \<Rightarrow> request" where
  "refresh_request tok identity =
     \<lparr>req_method = POST, url = oauth_token_url, headers = [basic_auth],
      body = Some (FormData
        ([(ascii ''grant_type'', ascii ''refresh_token''), (ascii ''refresh_token'', tok)] @
         (case identity of None \<Rightarrow> [] | Some i \<Rightarrow> [(ascii ''identity'', i)]))),
      redirect_manual = False\<rparr>"

text \<open>Lines 116 to 130 of \<^verbatim>\<open>refresh\<close>: the request to the token endpoint.\<close>

definition refresh_post :: "env \<Rightarrow> jsstring \<Rightarrow> jsstring option \<Rightarrow> request list \<Rightarrow> (js_error + userInfo) \<times> request list" where
  "refresh_post E tok identity log =
     (case fetch (oauth E) (refresh_request tok identity) log of
        (Inl e, log') \<Rightarrow> (Inl e, log')
      | (Inr res, log') \<Rightarrow>
          if \<not> ok res then (Inl (LoginError (refresh_failed @ status_line res)), log')
          else (case json res of
                  Inl m \<Rightarrow> (Inl (SyntaxError m), log')
                | Inr u \<Rightarrow> (Inr u, log')))"

definition refresh :: "env \<Rightarrow> jsstring \<Rightarrow> Role option \<Rightarrow> request list \<Rightarrow> (js_error + userInfo) \<times> request list" where
  "refresh E tok r log =
     (case r of
        None \<Rightarrow> refresh_post E tok None log
      | Some wanted \<Rightarrow>
          (case getUserRoles E tok log of
             (Inl e, log') \<Rightarrow> (Inl e, log')
           | (Inr roles, log') \<Rightarrow>
               (case find (\<lambda>r. roleName r = wanted) roles of
                  None \<Rightarrow> (Inl (LoginError (no_such_role @ Role_value wanted)), log')
                | Some roleInfo \<Rightarrow> refresh_post E tok (Some (roleInfo.id roleInfo)) log')))"

section \<open>Scraping the pages\<close>

text \<open>The rest of \<open>s\<close> after the literal \<open>p\<close> at its start.\<close>

fun strip_prefix :: "jsstring \<Rightarrow> jsstring \<Rightarrow> jsstring option" where
  "strip_prefix [] s = Some s"
| "strip_prefix (p # ps) [] = None"
| "strip_prefix (p # ps) (c # cs) = (if p = c then strip_prefix ps cs else None)"

text \<open>Without the \<^verbatim>\<open>s\<close> flag a dot matches every code unit but the four line terminators.\<close>

definition line_terminator :: "16 word \<Rightarrow> bool" where
  "line_terminator c = (c = 0x0A \<or> c = 0x0D \<or> c = 0x2028 \<or> c = 0x2029)"

text \<open>
  \<^verbatim>\<open>(.*?)q\<close> at the start of the string, for a code unit \<open>q\<close> that is no line terminator:
  the lazy group ends at the first \<open>q\<close>, and nothing matches when a line terminator or the
  end of the string comes first.
\<close>

fun lazy_dots_until :: "16 word \<Rightarrow> jsstring \<Rightarrow> jsstring option" where
  "lazy_dots_until q [] = None"
| "lazy_dots_until q (c # cs) =
     (if c = q then Some []
      else if line_terminator c then None
      else map_option ((#) c) (lazy_dots_until q cs))"

definition execution_input :: jsstring where
  "execution_input = ascii ''<input name='' @ [0x22] @ ascii ''execution'' @ [0x22] @ ascii '' value='' @ [0x22]"

text \<open>
  Group 1 of \<^verbatim>\<open>html.match(/<input name="execution" value="(.*?)"/)\<close>: the start positions
  are tried from left to right.
\<close>

fun match_execution :: "jsstring \<Rightarrow> jsstring option" where
  "match_execution [] = None"
| "match_execution (c # cs) =
     (case strip_prefix execution_input (c # cs) of
        None \<Rightarrow> match_execution cs
      | Some rest \<Rightarrow>
          (case lazy_dots_until 0x22 rest of
             None \<Rightarrow> match_execution cs
           | Some v \<Rightarrow> Some v))"

text \<open>\<^verbatim>\<open>[^{]*{\<close>: the greedy class stops at the first opening brace, which must be there.\<close>

fun after_open_brace :: "jsstring \<Rightarrow> jsstring option" where
  "after_open_brace [] = None"
| "after_open_brace (c # cs) = (if c = 0x7B then Some cs else after_open_brace cs)"

text \<open>
  \<^verbatim>\<open>[^}]*id: '(.*?)'\<close>: the greedy class runs to the first closing brace and gives back
  one unit at a time, so the occurrences of \<^verbatim>\<open>id: '\<close> before that brace are tried from
  the last to the first.
\<close>

fun captcha_id_in :: "jsstring \<Rightarrow> jsstring option" where
  "captcha_id_in [] = None"
| "captcha_id_in (c # cs) =
     (if c = 0x7D then None
      else (case captcha_id_in cs of
              Some v \<Rightarrow> Some v
            | None \<Rightarrow>
                (case strip_prefix (ascii ''id: '' @ [0x27]) (c # cs) of
                   None \<Rightarrow> None
                 | Some rest \<Rightarrow> lazy_dots_until 0x27 rest)))"

text \<open>The pattern \<^verbatim>\<open>/config.captcha[^{]*{[^}]*id: '(.*?)'/\<close> at the start of the string.\<close>

definition match_captcha_here :: "jsstring \<Rightarrow> jsstring option" where
  "match_captcha_here s =
     (case strip_prefix (ascii ''config'') s of
        None \<Rightarrow> None
      | Some [] \<Rightarrow> None
      | Some (d # r) \<Rightarrow>
          if line_terminator d then None
          else (case strip_prefix (ascii ''captcha'') r of
                  None \<Rightarrow> None
                | Some r' \<Rightarrow>
                    (case after_open_brace r' of
                       None \<Rightarrow> None
                     | Some r'' \<Rightarrow> captcha_id_in r'')))"

fun match_captcha :: "jsstring \<Rightarrow> jsstring option" where
  "match_captcha [] = None"
| "match_captcha (c # cs) =
     (case match_captcha_here (c # cs) of
        None \<Rightarrow> match_captcha cs
      | Some v \<Rightarrow> Some v)"

text \<open>The string before and after the first occurrence of the literal \<open>p\<close>.\<close>

fun split_first :: "jsstring \<Rightarrow> jsstring \<Rightarrow> (jsstring \<times> jsstring) option" where
  "split_first p [] = (if p = [] then Some ([], []) else None)"
| "split_first p (c # cs) =
     (case strip_prefix p (c # cs) of
        Some rest \<Rightarrow> Some ([], rest)
      | None \<Rightarrow> map_option (\<lambda>(before, rest). (c # before, rest)) (split_first p cs))"

definition errorDiv :: jsstring where
  "errorDiv = ascii ''<div class='' @ [0x22] @ ascii ''alert alert-danger'' @ [0x22] @
     ascii '' id='' @ [0x22] @ ascii ''errorDiv'' @ [0x22] @ ascii ''>''"

text \<open>
  Group 1 of
  \<^verbatim>\<open>/<div class="alert alert-danger" id="errorDiv">.*?<p>(.*?)<\/p>.*?<\/div>/gs\<close>
  executed once on the page. With the \<^verbatim>\<open>s\<close> flag a dot matches every code unit, so each
  lazy \<^verbatim>\<open>.*?\<close> stops at the first occurrence of the literal after it, and a later start
  or a longer skip can only match where the first one does.
\<close>

definition alert_danger_message :: "jsstring \<Rightarrow> jsstring option" where
  "alert_danger_message html =
     (case split_first errorDiv html of
        None \<Rightarrow> None
      | Some (_, r1) \<Rightarrow>
          (case split_first (ascii ''<p>'') r1 of
             None \<Rightarrow> None
           | Some (_, r2) \<Rightarrow>
               (case split_first (ascii ''</p>'') r2 of
                  None \<Rightarrow> None
                | Some (message, r3) \<Rightarrow>
                    (case split_first (ascii ''</div>'') r3 of
                       None \<Rightarrow> None
                     | Some _ \<Rightarrow> Some message))))"

section \<open>\<^verbatim>\<open>getCookieAndExecution\<close>\<close>

record sessionData =
  id :: jsstring
  cookie :: jsstring
  execution :: jsstring
  captcha :: "jsstring option"

definition login_url :: jsstring where
  "login_url = ascii ''https://auth.bupt.edu.cn/authserver/login?service=https://ucloud.bupt.edu.cn''"

definition login_page_request :: request where
  "login_page_request =
     \<lparr>req_method = GET, url = login_url, headers = [], body = None, redirect_manual = False\<rparr>"

text \<open>
  The prefix of the numbered messages: the four characters of "login failed" (U+767B,
  U+5F55, U+5931, U+8D25), then \<^verbatim>\<open>(n): \<close> with the number \<open>n\<close> as it is written.
\<close>

definition login_failed :: "string \<Rightarrow> jsstring" where
  "login_failed n = [0x767B, 0x5F55, 0x5931, 0x8D25] @ ascii ''('' @ ascii n @ ascii ''): ''"

definition no_cookie :: js_error where
  "no_cookie = LoginError (login_failed ''-1'' @
     [0x65E0, 0x6CD5, 0x83B7, 0x53D6, 0x5230] @ ascii '' cookie'')"

definition no_execution :: js_error where
  "no_execution = LoginError (login_failed ''-2'' @
     [0x65E0, 0x6CD5, 0x83B7, 0x53D6, 0x5230] @ ascii '' execution'')"

definition no_captcha_handler :: js_error where
  "no_captcha_handler = LoginError (login_failed ''-3'' @
     [0x9700, 0x8981, 0x9A8C, 0x8BC1, 0x7801, 0xFF0C, 0x4F46, 0x672A, 0x914D, 0x7F6E,
      0x9A8C, 0x8BC1, 0x7801, 0x5904, 0x7406, 0x65B9, 0x5F0F])"

text \<open>\<^verbatim>\<open>s.slice(b, e)\<close> for \<open>0 \<le> b \<le> e\<close>.\<close>

definition slice :: "nat \<Rightarrow> nat \<Rightarrow> jsstring \<Rightarrow> jsstring" where
  "slice b e s = take (e - b) (drop b s)"

definition captchaUrl :: "jsstring \<Rightarrow> jsstring \<Rightarrow> jsstring" where
  "captchaUrl capthas_id random =
     ascii ''https://auth.bupt.edu.cn/authserver/captcha?captchaId='' @ capthas_id @
     ascii ''&r='' @ slice 2 7 random"

text \<open>\<^verbatim>\<open>res.headers.get("set-cookie")?.split(";")?.[0]\<close>\<close>

definition first_cookie :: "'p response \<Rightarrow> jsstring option" where
  "first_cookie res = map_option (takeWhile (\<lambda>c. c \<noteq> 0x3B)) (set_cookie res)"

definition ocr_url :: jsstring where
  "ocr_url = ascii ''https://ocr.byrdocs.org/ocr?''"

definition ocr_request :: "env \<Rightarrow> jsstring \<Rightarrow> jsstring \<Rightarrow> jsstring \<Rightarrow> request" where
  "ocr_request E captcha_url tok c =
     \<lparr>req_method = GET,
      url = ocr_url @ URLSearchParams_toString E
        [(ascii ''url'', captcha_url), (ascii ''token'', tok), (ascii ''cookie'', c)],
      headers = [], body = None, redirect_manual = False\<rparr>"

definition ocr_failed :: jsstring where
  "ocr_failed = ascii ''OCR '' @ [0x8BC6, 0x522B, 0x5931, 0x8D25] @ ascii '': ''"

text \<open>
  What one attempt makes of its \<^verbatim>\<open>fetch\<close> (lines 189 to 197): the text of the payload,
  or the failure of the attempt. A missing and an empty \<^verbatim>\<open>text\<close> are both falsy.
\<close>

definition ocr_result :: "js_error + ocr_data response \<Rightarrow> js_error + jsstring" where
  "ocr_result r =
     (case r of
        Inl e \<Rightarrow> Inl e
      | Inr res \<Rightarrow>
          (case json res of
             Inl m \<Rightarrow> Inl (SyntaxError m)
           | Inr d \<Rightarrow>
               (case ocr_text d of
                  Some t \<Rightarrow>
                    if t \<noteq> [] then Inr t
                    else Inl (OCRError (ocr_failed @
                           (case detail d of None \<Rightarrow> ascii ''Unknown error'' | Some x \<Rightarrow> x)))
                | None \<Rightarrow>
                    Inl (OCRError (ocr_failed @
                           (case detail d of None \<Rightarrow> ascii ''Unknown error'' | Some x \<Rightarrow> x))))))"

text \<open>
  The retry loop of lines 187 to 212, from the state \<open>(attempt, lastError)\<close>. The
  \<^verbatim>\<open>continue\<close> of line 207 and the fall through the \<^verbatim>\<open>catch\<close> both go to the next
  iteration. With no iteration at all \<^verbatim>\<open>throw lastError!\<close> throws \<^verbatim>\<open>null\<close>.
\<close>

function ocr_loop :: "env \<Rightarrow> request \<Rightarrow> int \<Rightarrow> int \<Rightarrow> js_error option \<Rightarrow> request list \<Rightarrow>
    (js_error + jsstring) \<times> request list" where
  "ocr_loop E req max_retries attempt lastError log =
     (if attempt < max_retries then
        (let r = fetch (ocr_service E) req log in
         case ocr_result (fst r) of
           Inr captchaText \<Rightarrow> (Inr captchaText, snd r)
         | Inl error \<Rightarrow>
             ocr_loop E req max_retries (attempt + 1)
               (Some (if instanceof_Error error then error else OCRError (String_of error)))
               (snd r))
      else
        (Inl (case lastError of None \<Rightarrow> Thrown (ascii ''null'') | Some e \<Rightarrow> e), log))"
  by pat_completeness auto
termination
  by (relation "measure (\<lambda>(E, req, max_retries, attempt, lastError, log). nat (max_retries - attempt))") auto

declare ocr_loop.simps [simp del]

text \<open>
  \<^verbatim>\<open>options.ocr.maxRetries || 3\<close>: an absent and a zero bound are both falsy. The
  bound is a whole number here, of either sign; \<^verbatim>\<open>NaN\<close> and fractions are left out.
\<close>

definition maxRetries_or_3 :: "ocr_options \<Rightarrow> int" where
  "maxRetries_or_3 oc = (case maxRetries oc of None \<Rightarrow> 3 | Some n \<Rightarrow> if n = 0 then 3 else n)"

text \<open>Lines 172 to 216: a captcha id was found (it is not empty).\<close>

definition resolve_captcha :: "env \<Rightarrow> loginOptions option \<Rightarrow> jsstring \<Rightarrow> jsstring \<Rightarrow> jsstring \<Rightarrow>
    request list \<Rightarrow> (js_error + sessionData) \<times> request list" where
  "resolve_captcha E options capthas_id c e log =
     (let captcha_url = captchaUrl capthas_id (Math_random_toString E) in
      case Option.bind options onCaptcha of
        Some callback \<Rightarrow>
          (case callback captcha_url c of
             Inl err \<Rightarrow> (Inl err, log)
           | Inr captchaText \<Rightarrow>
               (Inr \<lparr>id = capthas_id, cookie = c, execution = e, captcha = Some captchaText\<rparr>, log))
      | None \<Rightarrow>
          (case Option.bind options ocr of
             Some oc \<Rightarrow>
               (case ocr_loop E (ocr_request E captcha_url (token oc) c) (maxRetries_or_3 oc) 0 None log of
                  (Inl err, log') \<Rightarrow> (Inl err, log')
                | (Inr captchaText, log') \<Rightarrow>
                    (Inr \<lparr>id = capthas_id, cookie = c, execution = e, captcha = Some captchaText\<rparr>, log'))
           | None \<Rightarrow> (Inl no_captcha_handler, log)))"

definition getCookieAndExecution :: "env \<Rightarrow> loginOptions option \<Rightarrow> request list \<Rightarrow>
    (js_error + sessionData) \<times> request list" where
  "getCookieAndExecution E options log =
     (case fetch (sso E) login_page_request log of
        (Inl err, log') \<Rightarrow> (Inl err, log')
      | (Inr res, log') \<Rightarrow>
          (case first_cookie res of
             None \<Rightarrow> (Inl no_cookie, log')
           | Some c \<Rightarrow>
               if c = [] then (Inl no_cookie, log')
               else (case match_execution (body_text res) of
                       None \<Rightarrow> (Inl no_execution, log')
                     | Some e \<Rightarrow>
                         (case match_captcha (body_text res) of
                            None \<Rightarrow>
                              (Inr \<lparr>id = [], cookie = c, execution = e, captcha = None\<rparr>, log')
                          | Some capthas_id \<Rightarrow>
                              if capthas_id \<noteq> [] then resolve_captcha E options capthas_id c e log'
                              else (Inr \<lparr>id = [], cookie = c, execution = e, captcha = None\<rparr>, log')))))"

section \<open>\<^verbatim>\<open>login\<close>\<close>

definition user_agent :: jsstring where
  "user_agent = ascii ''Mozilla/5.0 (Macintosh; Intel Mac OS X 10_15_7) AppleWebKit/537.36 (KHTML, like Gecko) Chrome/118.0.0.0 Safari/537.36 Edg/118.0.2088.61''"

text \<open>The body of the credential submission, lines 262 to 267.\<close>

definition submit_body :: "jsstring \<Rightarrow> sessionData \<Rightarrow> jsstring" where
  "submit_body bodyp sd =
     bodyp @
     (case captcha sd of
        None \<Rightarrow> []
      | Some t \<Rightarrow> if t \<noteq> [] then ascii ''&captcha='' @ t else []) @
     ascii ''&submit=%E7%99%BB%E5%BD%95&type=username_password&execution='' @
     execution sd @
     ascii ''&_eventId=submit''"

definition submit_request :: "jsstring \<Rightarrow> sessionData \<Rightarrow> request" where
  "submit_request bodyp sd =
     \<lparr>req_method = POST, url = login_url,
      headers =
        [(ascii ''authority'', ascii ''auth.bupt.edu.cn''),
         (ascii ''content-type'', ascii ''application/x-www-form-urlencoded''),
         (ascii ''cookie'', cookie sd),
         (ascii ''referer'', login_url),
         (ascii ''user-agent'', user_agent)],
      body = Some (Text (submit_body bodyp sd)),
      redirect_manual = True\<rparr>"

definition unknown_error :: js_error where
  "unknown_error = LoginError (login_failed ''2'' @ [0x672A, 0x77E5, 0x9519, 0x8BEF])"

definition wrong_password :: js_error where
  "wrong_password = LoginError (login_failed ''3'' @
     [0x7528, 0x6237, 0x540D, 0x6216, 0x8005, 0x5BC6, 0x7801, 0x9519, 0x8BEF])"

definition server_message :: "jsstring \<Rightarrow> js_error" where
  "server_message error = LoginError (login_failed ''4'' @ error)"

definition bad_status :: "'p response \<Rightarrow> jsstring option \<Rightarrow> js_error" where
  "bad_status response error = LoginError (login_failed ''1'' @ status_line response @
     (case error of
        None \<Rightarrow> []
      | Some m \<Rightarrow> if m \<noteq> [] then ascii ''('' @ m @ ascii '')'' else []))"

definition no_location :: js_error where
  "no_location = LoginError (login_failed ''5'' @
     [0x65E0, 0x6CD5, 0x83B7, 0x53D6, 0x5230, 0x91CD, 0x5B9A, 0x5411, 0x76EE, 0x6807])"

definition no_ticket :: js_error where
  "no_ticket = LoginError (login_failed ''6'' @
     [0x65E0, 0x6CD5, 0x83B7, 0x53D6, 0x5230] @ ascii ''ticket'')"

definition no_roles :: js_error where
  "no_roles = LoginError (login_failed ''8'' @
     [0x7528, 0x6237, 0x65E0, 0x4EFB, 0x4F55, 0x89D2, 0x8272])"

text \<open>
  Lines 271 to 302: the ticket of the response to the credential submission, or the error
  thrown. An absent and an empty message, location or ticket are falsy alike.
\<close>

definition ticket_of :: "env \<Rightarrow> unit response \<Rightarrow> js_error + jsstring" where
  "ticket_of E response =
     (if status response \<noteq> 302 then
        (let error = alert_danger_message (body_text response) in
         if status response = 401 then
           (case error of
              None \<Rightarrow> Inl unknown_error
            | Some m \<Rightarrow>
                if m \<noteq> [] then
                  Inl (if m = ascii ''Invalid credentials.'' then wrong_password
                       else server_message m)
                else Inl unknown_error)
         else Inl (bad_status response error))
      else
        (case location response of
           None \<Rightarrow> Inl no_location
         | Some loc \<Rightarrow>
             if loc = [] then Inl no_location
             else (case URL_search E loc of
                     None \<Rightarrow> Inl (TypeError (ascii ''Invalid URL''))
                   | Some search \<Rightarrow>
                       (case URLSearchParams_get E search (ascii ''ticket'') of
                          None \<Rightarrow> Inl no_ticket
                        | Some ticket \<Rightarrow> if ticket \<noteq> [] then Inr ticket else Inl no_ticket))))"

definition ticket_request :: "jsstring \<Rightarrow> request" where
  "ticket_request ticket =
     \<lparr>req_method = POST, url = oauth_token_url,
      headers =
        [(ascii ''accept'', ascii ''application/json, text/plain, */*''),
         basic_auth,
         (ascii ''content-type'', ascii ''application/x-www-form-urlencoded''),
         (ascii ''tenant-id'', ascii ''000000''),
         (ascii ''Referer'', ascii ''https://ucloud.bupt.edu.cn/''),
         (ascii ''Referrer-Policy'', ascii ''strict-origin-when-cross-origin'')],
      body = Some (Text (ascii ''ticket='' @ ticket @ ascii ''&grant_type=third'')),
      redirect_manual = False\<rparr>"

record loginResult = userInfo +
  roles :: "roleInfo list"

text \<open>Lines 303 to 336: from the ticket to the result.\<close>

definition exchange_ticket :: "env \<Rightarrow> jsstring \<Rightarrow> loginOptions option \<Rightarrow> request list \<Rightarrow>
    (js_error + loginResult) \<times> request list" where
  "exchange_ticket E ticket options log =
     (case fetch (oauth E) (ticket_request ticket) log of
        (Inl err, log1) \<Rightarrow> (Inl err, log1)
      | (Inr response, log1) \<Rightarrow>
          if \<not> ok response then
            (Inl (LoginError (login_failed ''7'' @ status_line response)), log1)
          else
            (case json response of
               Inl m \<Rightarrow> (Inl (SyntaxError m), log1)
             | Inr userInfo \<Rightarrow>
                 (case getUserRoles E (refresh_token userInfo) log1 of
                    (Inl err, log2) \<Rightarrow> (Inl err, log2)
                  | (Inr [], log2) \<Rightarrow> (Inl no_roles, log2)
                  | (Inr (r0 # rs), log2) \<Rightarrow>
                      (case refresh E (refresh_token userInfo)
                              (Some (case Option.bind options role of
                                       Some r \<Rightarrow> r
                                     | None \<Rightarrow> roleName r0))
                              log2 of
                         (Inl err, log3) \<Rightarrow> (Inl err, log3)
                       | (Inr u, log3) \<Rightarrow>
                           (Inr (userInfo.extend u (loginResult.fields (r0 # rs))), log3)))))"

definition login :: "env \<Rightarrow> jsstring \<Rightarrow> jsstring \<Rightarrow> loginOptions option \<Rightarrow> request list \<Rightarrow>
    (js_error + loginResult) \<times> request list" where
  "login E username password options log =
     (case getCookieAndExecution E options log of
        (Inl err, log1) \<Rightarrow> (Inl err, log1)
      | (Inr sessionData, log1) \<Rightarrow>
          (case encodeURIComponent E username of
             Inl m \<Rightarrow> (Inl (URIError m), log1)
           | Inr u \<Rightarrow>
               (case encodeURIComponent E password of
                  Inl m \<Rightarrow> (Inl (URIError m), log1)
                | Inr p \<Rightarrow>
                    (case fetch (sso E)
                            (submit_request (ascii ''username='' @ u @ ascii ''&password='' @ p)
                               sessionData)
                            log1 of
                       (Inl err, log2) \<Rightarrow> (Inl err, log2)
                     | (Inr response, log2) \<Rightarrow>
                         (case ticket_of E response of
                            Inl err \<Rightarrow> (Inl err, log2)
                          | Inr ticket \<Rightarrow> exchange_ticket E ticket options log2)))))"

section \<open>Observations on a run\<close>

text \<open>The requests a call has added to the log.\<close>

definition issued :: "request list \<Rightarrow> request list \<Rightarrow> request list" where
  "issued log log' = drop (length log) log'"

text \<open>A request to the OCR endpoint: its URL starts with the endpoint's.\<close>

definition to_ocr :: "request \<Rightarrow> bool" where
  "to_ocr r = (take (length ocr_url) (url r) = ocr_url)"

text \<open>\<open>quiet log log'\<close>: the log has grown by requests of which none goes to the OCR endpoint.\<close>

definition quiet :: "request list \<Rightarrow> request list \<Rightarrow> bool" where
  "quiet log log' = (\<exists>extra. log' = log @ extra \<and> filter to_ocr extra = [])"

text \<open>
  What the OCR attempt makes of the \<open>n\<close>-th outcome of the OCR script, that is the
  outcome of the attempt whose request is the \<open>n\<close>-th of the run.
\<close>

definition ocr_attempt :: "env \<Rightarrow> nat \<Rightarrow> js_error + jsstring" where
  "ocr_attempt E n =
     ocr_result (case ocr_service E n of Rejected m \<Rightarrow> Inl (TypeError m) | Resolved res \<Rightarrow> Inr res)"

definition digit :: "16 word \<Rightarrow> bool" where
  "digit c = (0x30 \<le> c \<and> c \<le> 0x39)"

text \<open>The number a string of decimal digits denotes.\<close>

definition decimal :: "jsstring \<Rightarrow> nat" where
  "decimal s = foldl (\<lambda>a c. 10 * a + (unat c - 48)) 0 s"

definition five_digits :: "jsstring \<Rightarrow> bool" where
  "five_digits s = (length s = 5 \<and> list_all digit s)"

section \<open>Sample runs\<close>

text \<open>Concrete environments and pages, for evaluating the functions above.\<close>

definition sample_response :: "'p \<Rightarrow> 'p response" where
  "sample_response p =
     \<lparr>status = 200, statusText = ascii ''OK'', set_cookie = None, location = None,
      body_text = [], json = Inr p\<rparr>"

definition offline :: env where
  "offline =
     \<lparr>sso = (\<lambda>n. Rejected (ascii ''fetch failed'')),
      ocr_service = (\<lambda>n. Rejected (ascii ''fetch failed'')),
      oauth = (\<lambda>n. Rejected (ascii ''fetch failed'')),
      role_listing = (\<lambda>n. Rejected (ascii ''fetch failed'')),
      Math_random_toString = ascii ''0.7312894561238'',
      URL_search = (\<lambda>s. None),
      URLSearchParams_get = (\<lambda>q k. None),
      URLSearchParams_toString = (\<lambda>ps. []),
      encodeURIComponent = Inr\<rparr>"

definition student_role :: roleInfo where
  "student_role =
     \<lparr>roleInfo.id = ascii ''101'', roleId = ascii ''7'', roleAliase = ascii ''student'',
      roleName = Student, domainId = ascii ''1'', domainName = ascii ''BUPT''\<rparr>"

definition with_roles :: "roleInfo list \<Rightarrow> env" where
  "with_roles rs = offline\<lparr>role_listing := (\<lambda>n. Resolved (sample_response \<lparr>data = rs\<rparr>))\<rparr>"

definition login_page :: "jsstring option \<Rightarrow> jsstring \<Rightarrow> unit response" where
  "login_page sc html =
     \<lparr>status = 200, statusText = ascii ''OK'', set_cookie = sc, location = None,
      body_text = html, json = Inl (ascii ''Unexpected token <'')\<rparr>"

definition session_cookie :: jsstring where
  "session_cookie = ascii ''JSESSIONID=0A1B2C; Path=/authserver; HttpOnly''"

definition form_html :: jsstring where
  "form_html = ascii ''<form>'' @ execution_input @ ascii ''e1s1'' @ [0x22] @ ascii ''/></form>''"

definition captcha_html :: jsstring where
  "captcha_html = form_html @ ascii ''<script>config.captcha = { type: 1, id: '' @ [0x27] @
     ascii ''8471'' @ [0x27] @ ascii '' };</script>''"

text \<open>The SSO answers the first request of the run with the page; the network is down after it.\<close>

definition serving :: "unit response \<Rightarrow> env" where
  "serving page =
     offline\<lparr>sso := (\<lambda>n. if n = 0 then Resolved page else Rejected (ascii ''fetch failed''))\<rparr>"

definition both_handlers :: loginOptions where
  "both_handlers =
     \<lparr>role = None,
      onCaptcha = Some (\<lambda>captcha_url c. Inr (ascii ''x7k2'')),
      ocr = Some \<lparr>token = ascii ''secret'', maxRetries = None\<rparr>\<rparr>"

definition empty_token_html :: jsstring where
  "empty_token_html = ascii ''<form>'' @ execution_input @ [0x22] @ ascii ''/></form>''"

definition error_page :: "nat \<Rightarrow> jsstring \<Rightarrow> jsstring \<Rightarrow> unit response" where
  "error_page code reason message =
     \<lparr>status = code, statusText = reason, set_cookie = None, location = None,
      body_text = ascii ''<html>'' @ errorDiv @ ascii ''<span>!</span><p>'' @ message @
        ascii ''</p></div></html>'',
      json = Inl (ascii ''Unexpected token <'')\<rparr>"

definition redirect_to :: "jsstring \<Rightarrow> unit response" where
  "redirect_to loc =
     \<lparr>status = 302, statusText = ascii ''Found'', set_cookie = None, location = Some loc,
      body_text = [], json = Inl (ascii ''Unexpected end of JSON input'')\<rparr>"

text \<open>
  \<^verbatim>\<open>new URL(s).search\<close> on the strings used below: two absolute URLs, and the relative
  reference \<^verbatim>\<open>/authserver/login\<close>, on which the constructor (called without a base)
  throws.
\<close>

definition sample_URL_search :: "jsstring \<Rightarrow> jsstring option" where
  "sample_URL_search s =
     (if s = ascii ''https://ucloud.bupt.edu.cn/?lang=zh'' then Some (ascii ''?lang=zh'')
      else if s = ascii ''https://ucloud.bupt.edu.cn/?ticket=ST-42'' then Some (ascii ''?ticket=ST-42'')
      else if s = ascii ''/authserver/login'' then None
      else None)"

definition sample_get :: "jsstring \<Rightarrow> jsstring \<Rightarrow> jsstring option" where
  "sample_get query k =
     (if query = ascii ''?ticket=ST-42'' \<and> k = ascii ''ticket'' then Some (ascii ''ST-42'')
      else if query = ascii ''?lang=zh'' \<and> k = ascii ''lang'' then Some (ascii ''zh'')
      else None)"

text \<open>
  The SSO serves the plain login form first and answers every later request with the
  given response.
\<close>

definition answering :: "unit response \<Rightarrow> env" where
  "answering response =
     offline\<lparr>sso := (\<lambda>n. if n = 0 then Resolved (login_page (Some session_cookie) form_html)
                         else Resolved response),
             URL_search := sample_URL_search,
             URLSearchParams_get := sample_get\<rparr>"

definition plain_session :: sessionData where
  "plain_session =
     \<lparr>id = [], cookie = ascii ''JSESSIONID=0A1B2C'', execution = ascii ''e1s1'', captcha = None\<rparr>"

definition ocr_only :: "int option \<Rightarrow> loginOptions" where
  "ocr_only n =
     \<lparr>role = None, onCaptcha = None, ocr = Some \<lparr>token = ascii ''secret'', maxRetries = n\<rparr>\<rparr>"

definition ocr_reply :: "jsstring option \<Rightarrow> jsstring option \<Rightarrow> ocr_data response" where
  "ocr_reply t d = sample_response \<lparr>ocr_text = t, detail = d\<rparr>"

text \<open>
  Two OCR services. The first fails the requests 1 and 2 of the run (the network, then
  no text) and reads the captcha at request 3; the second never reads it.
\<close>

definition flaky :: "ocr_data script" where
  "flaky n =
     (if n = 3 then Resolved (ocr_reply (Some (ascii ''x7k2'')) None)
      else if n = 2 then Resolved (ocr_reply None (Some (ascii ''busy'')))
      else Rejected (ascii ''fetch failed''))"

definition hopeless :: "ocr_data script" where
  "hopeless n =
     (if n = 3 then Resolved (ocr_reply (Some []) None)
      else if n = 2 then Resolved (ocr_reply None (Some (ascii ''busy'')))
      else Rejected (ascii ''fetch failed''))"

definition sample_user :: userInfo where
  "sample_user =
     \<lparr>access_token = ascii ''at-1'', token_type = ascii ''bearer'', refresh_token = ascii ''rt-1'',
      expires_in = 3600, scope = ascii ''all'', tenant_id = ascii ''000000'', license = ascii ''bupt'',
      loginId = ascii ''2021211001'', user_id = ascii ''9001'', user_name = ascii ''2021211001'',
      real_name = ascii ''Li Hua'', avatar = [], dept_id = ascii ''12'', client_id = ascii ''portal'',
      account = ascii ''2021211001'', jti = ascii ''j-1''\<rparr>"

definition sample_captcha_url :: jsstring where
  "sample_captcha_url = ascii ''https://auth.bupt.edu.cn/authserver/captcha?captchaId=8471&r=73128''"

text \<open>Of the parameter lists, the platform serialises the one used below.\<close>

definition sample_toString :: "(jsstring \<times> jsstring) list \<Rightarrow> jsstring" where
  "sample_toString ps =
     (if ps = [(ascii ''url'', sample_captcha_url), (ascii ''token'', ascii ''secret''),
               (ascii ''cookie'', ascii ''JSESSIONID=0A1B2C'')]
      then ascii ''url=https%3A%2F%2Fauth.bupt.edu.cn%2Fauthserver%2Fcaptcha%3FcaptchaId%3D8471%26r%3D73128&token=secret&cookie=JSESSIONID%3D0A1B2C''
      else [])"

text \<open>
  A campus where everything but the OCR service works: the login page asks for a captcha,
  the submission is answered with a ticket, the token endpoint and the role listing
  answer with the sample user and the student role.
\<close>

definition campus :: "ocr_data script \<Rightarrow> env" where
  "campus ocr_script =
     \<lparr>sso = (\<lambda>n. if n = 0 then Resolved (login_page (Some session_cookie) captcha_html)
                  else Resolved (redirect_to (ascii ''https://ucloud.bupt.edu.cn/?ticket=ST-42''))),
      ocr_service = ocr_script,
      oauth = (\<lambda>n. Resolved (sample_response sample_user)),
      role_listing = (\<lambda>n. Resolved (sample_response \<lparr>data = [student_role]\<rparr>)),
      Math_random_toString = ascii ''0.7312894561238'',
      URL_search = sample_URL_search,
      URLSearchParams_get = sample_get,
      URLSearchParams_toString = sample_toString,
      encodeURIComponent = Inr\<rparr>"

definition sample_ocr_request :: request where
  "sample_ocr_request =
     \<lparr>req_method = GET,
      url = ascii ''https://ocr.byrdocs.org/ocr?url=https%3A%2F%2Fauth.bupt.edu.cn%2Fauthserver%2Fcaptcha%3FcaptchaId%3D8471%26r%3D73128&token=secret&cookie=JSESSIONID%3D0A1B2C'',
      headers = [], body = None, redirect_manual = False\<rparr>"

definition captcha_session :: sessionData where
  "captcha_session =
     \<lparr>id = ascii ''8471'', cookie = ascii ''JSESSIONID=0A1B2C'', execution = ascii ''e1s1'',
      captcha = Some (ascii ''x7k2'')\<rparr>"

definition sample_result :: loginResult where
  "sample_result = userInfo.extend sample_user (loginResult.fields [student_role])"

section \<open>Properties\<close>

subsection \<open>The request log\<close>

lemma fetch_log: "snd (fetch script req log) = log @ [req]"
  by (simp add: fetch_def)

lemma page_fetch:
  "sso E (length log) = Resolved res \<Longrightarrow>
   fetch (sso E) login_page_request log = (Inr res, log @ [login_page_request])"
  by (simp add: fetch_def)

lemma getUserRoles_log: "snd (getUserRoles E tok log) = log @ [roles_request tok]"
  by (simp add: getUserRoles_def fetch_def split: outcome.splits sum.splits)

lemma refresh_post_log: "snd (refresh_post E tok i log) = log @ [refresh_request tok i]"
  by (simp add: refresh_post_def fetch_def split: outcome.splits sum.splits)

lemma quiet_refl: "quiet log log"
  by (simp add: quiet_def)

lemma quiet_trans: "quiet a b \<Longrightarrow> quiet b c \<Longrightarrow> quiet a c"
  by (fastforce simp: quiet_def)

lemma quiet_snoc: "\<not> to_ocr req \<Longrightarrow> quiet log (log @ [req])"
  by (simp add: quiet_def)

lemma quiet_issued: "quiet log log' \<Longrightarrow> filter to_ocr (issued log log') = []"
  by (auto simp: quiet_def issued_def)

lemma not_ocr:
  "\<not> to_ocr login_page_request" "\<not> to_ocr (submit_request b sd)"
  "\<not> to_ocr (ticket_request t)" "\<not> to_ocr (roles_request tok)" "\<not> to_ocr (refresh_request tok i)"
  by (simp_all add: to_ocr_def ocr_url_def login_page_request_def submit_request_def
      ticket_request_def roles_request_def refresh_request_def login_url_def oauth_token_url_def
      listByUserId_url_def ascii_def)

lemma quiet_getUserRoles: "quiet log (snd (getUserRoles E tok log))"
  by (simp add: getUserRoles_log quiet_snoc not_ocr)

lemma quiet_refresh_post: "quiet log (snd (refresh_post E tok i log))"
  by (simp add: refresh_post_log quiet_snoc not_ocr)

lemma quiet_refresh: "quiet log (snd (refresh E tok r log))"
proof (cases r)
  case None
  then show ?thesis by (simp add: refresh_def quiet_refresh_post)
next
  case (Some wanted)
  obtain x log1 where g: "getUserRoles E tok log = (x, log1)" by force
  have q1: "quiet log log1" using quiet_getUserRoles [of log E tok] g by simp
  show ?thesis
  proof (cases x)
    case (Inl e)
    then show ?thesis using Some g q1 by (simp add: refresh_def)
  next
    case (Inr rs)
    show ?thesis
    proof (cases "find (\<lambda>r. roleName r = wanted) rs")
      case None
      then show ?thesis using Some g q1 Inr by (simp add: refresh_def)
    next
      case (Some roleInfo)
      then show ?thesis
        using \<open>r = Some wanted\<close> g Inr quiet_trans [OF q1 quiet_refresh_post]
        by (simp add: refresh_def)
    qed
  qed
qed

lemma quiet_exchange_ticket: "quiet log (snd (exchange_ticket E ticket options log))"
proof (cases "oauth E (length log)")
  case (Rejected m)
  then show ?thesis
    by (simp add: exchange_ticket_def fetch_def quiet_snoc not_ocr)
next
  case (Resolved response)
  have q1: "quiet log (log @ [ticket_request ticket])"
    by (simp add: quiet_snoc not_ocr)
  show ?thesis
  proof (cases "json response")
    case (Inl m)
    then show ?thesis using Resolved q1 by (simp add: exchange_ticket_def fetch_def)
  next
    case (Inr userInfo)
    obtain x log2 where
      g: "getUserRoles E (refresh_token userInfo) (log @ [ticket_request ticket]) = (x, log2)"
      by force
    have q2: "quiet log log2"
      using quiet_trans [OF q1 quiet_getUserRoles [of _ E "refresh_token userInfo"]] g by simp
    show ?thesis
    proof (cases x)
      case (Inl e)
      then show ?thesis using Resolved q1 q2 g \<open>json response = Inr userInfo\<close>
        by (simp add: exchange_ticket_def fetch_def)
    next
      case (Inr rs)
      show ?thesis
      proof (cases rs)
        case Nil
        then show ?thesis using Resolved q1 q2 g Inr \<open>json response = Inr userInfo\<close>
          by (simp add: exchange_ticket_def fetch_def)
      next
        case (Cons r0 rest)
        have "quiet log (snd (refresh E tok r log2))" for tok r
          using quiet_trans [OF q2 quiet_refresh] .
        then show ?thesis using Resolved q1 q2 g Inr Cons \<open>json response = Inr userInfo\<close>
          by (simp add: exchange_ticket_def fetch_def split: prod.splits sum.splits)
            (metis snd_conv)
      qed
    qed
  qed
qed

text \<open>After the session data, \<open>login\<close> contacts the SSO, the token endpoint and the role listing only.\<close>

lemma quiet_login_tail:
  assumes "getCookieAndExecution E options log = (Inr sd, log1)"
  shows "quiet log1 (snd (login E username password options log))"
proof (cases "encodeURIComponent E username")
  case (Inl m)
  then show ?thesis using assms by (simp add: login_def quiet_refl)
next
  case (Inr u)
  show ?thesis
  proof (cases "encodeURIComponent E password")
    case (Inl m)
    then show ?thesis using assms Inr by (simp add: login_def quiet_refl)
  next
    case p: (Inr p)
    let ?req = "submit_request (ascii ''username='' @ u @ ascii ''&password='' @ p) sd"
    have q1: "quiet log1 (log1 @ [?req])"
      by (simp add: quiet_snoc not_ocr)
    have q2: "quiet log1 (snd (exchange_ticket E t options (log1 @ [?req])))" for t
      using quiet_trans [OF q1 quiet_exchange_ticket] .
    show ?thesis
      using assms Inr p q1 q2
      by (simp add: login_def fetch_def split: outcome.splits sum.splits)
  qed
qed

text \<open>With a callback configured, the session bootstrap issues the page request only.\<close>

lemma callback_bootstrap_log:
  assumes "Option.bind options onCaptcha = Some callback"
  shows "snd (getCookieAndExecution E options log) = log @ [login_page_request]"
  using assms
  by (simp add: getCookieAndExecution_def fetch_def resolve_captcha_def
      split: outcome.splits option.splits sum.splits)

subsection \<open>The retry loop\<close>

lemma ocr_attempt_fetch:
  "ocr_result (fst (fetch (ocr_service E) req log)) = ocr_attempt E (length log)"
  by (simp add: fetch_def ocr_attempt_def)

text \<open>Every failure of an attempt is an \<^verbatim>\<open>Error\<close>, so line 205 keeps it as it is.\<close>

lemma ocr_attempt_Error: "ocr_attempt E n = Inl e \<Longrightarrow> instanceof_Error e"
  by (auto simp: ocr_attempt_def ocr_result_def split: outcome.splits sum.splits option.splits if_splits)

lemma ocr_loop_stop:
  "\<not> attempt < max_retries \<Longrightarrow>
   ocr_loop E req max_retries attempt lastError log =
     (Inl (case lastError of None \<Rightarrow> Thrown (ascii ''null'') | Some e \<Rightarrow> e), log)"
  by (simp add: ocr_loop.simps)

lemma ocr_loop_success:
  "attempt < max_retries \<Longrightarrow> ocr_attempt E (length log) = Inr t \<Longrightarrow>
   ocr_loop E req max_retries attempt lastError log = (Inr t, log @ [req])"
  by (subst ocr_loop.simps) (simp add: Let_def ocr_attempt_fetch fetch_log)

lemma ocr_loop_failure:
  "attempt < max_retries \<Longrightarrow> ocr_attempt E (length log) = Inl e \<Longrightarrow>
   ocr_loop E req max_retries attempt lastError log =
     ocr_loop E req max_retries (attempt + 1) (Some e) (log @ [req])"
  by (subst ocr_loop.simps) (simp add: Let_def ocr_attempt_fetch fetch_log ocr_attempt_Error)

lemma ocr_loop_first_success:
  "\<forall>j<m. isl (ocr_attempt E (length log + j)) \<Longrightarrow>
   ocr_attempt E (length log + m) = Inr t \<Longrightarrow> attempt + int m < max_retries \<Longrightarrow>
   ocr_loop E req max_retries attempt lastError log = (Inr t, log @ replicate (Suc m) req)"
proof (induction m arbitrary: attempt lastError log)
  case 0
  then show ?case by (simp add: ocr_loop_success)
next
  case (Suc m)
  from Suc.prems(1) obtain e where e: "ocr_attempt E (length log) = Inl e"
    by (cases "ocr_attempt E (length log)") (use Suc.prems(1) in force)+
  have step: "ocr_loop E req max_retries attempt lastError log =
      ocr_loop E req max_retries (attempt + 1) (Some e) (log @ [req])"
    using Suc.prems(3) e by (simp add: ocr_loop_failure)
  have "ocr_loop E req max_retries (attempt + 1) (Some e) (log @ [req]) =
      (Inr t, (log @ [req]) @ replicate (Suc m) req)"
    using Suc.prems by (intro Suc.IH) auto
  with step show ?case by (simp add: replicate_append_same)
qed

lemma ocr_loop_all_fail:
  "\<forall>j<m. isl (ocr_attempt E (length log + j)) \<Longrightarrow>
   ocr_attempt E (length log + m) = Inl e \<Longrightarrow> attempt + int (Suc m) = max_retries \<Longrightarrow>
   ocr_loop E req max_retries attempt lastError log = (Inl e, log @ replicate (Suc m) req)"
proof (induction m arbitrary: attempt lastError log)
  case 0
  then show ?case by (simp add: ocr_loop_failure ocr_loop_stop)
next
  case (Suc m)
  from Suc.prems(1) obtain e' where e': "ocr_attempt E (length log) = Inl e'"
    by (cases "ocr_attempt E (length log)") (use Suc.prems(1) in force)+
  have step: "ocr_loop E req max_retries attempt lastError log =
      ocr_loop E req max_retries (attempt + 1) (Some e') (log @ [req])"
    using Suc.prems(3) e' by (simp add: ocr_loop_failure)
  have "ocr_loop E req max_retries (attempt + 1) (Some e') (log @ [req]) =
      (Inl e, (log @ [req]) @ replicate (Suc m) req)"
    using Suc.prems by (intro Suc.IH) auto
  with step show ?case by (simp add: replicate_append_same)
qed

text \<open>With a positive bound the loop issues between one and that many requests.\<close>

lemma ocr_loop_attempts:
  "attempt + int (Suc m) = max_retries \<Longrightarrow>
   \<exists>k. 1 \<le> k \<and> k \<le> Suc m \<and>
     snd (ocr_loop E req max_retries attempt lastError log) = log @ replicate k req"
proof (induction m arbitrary: attempt lastError log)
  case 0
  show ?case
  proof (cases "ocr_attempt E (length log)")
    case (Inl e)
    then show ?thesis
      using 0 by (intro exI [of _ 1]) (simp add: ocr_loop_failure ocr_loop_stop)
  next
    case (Inr t)
    then show ?thesis
      using 0 by (intro exI [of _ 1]) (simp add: ocr_loop_success)
  qed
next
  case (Suc m)
  show ?case
  proof (cases "ocr_attempt E (length log)")
    case (Inl e)
    have "\<exists>k. 1 \<le> k \<and> k \<le> Suc m \<and>
        snd (ocr_loop E req max_retries (attempt + 1) (Some e) (log @ [req])) =
          (log @ [req]) @ replicate k req"
      using Suc.prems by (intro Suc.IH) auto
    then obtain k where "1 \<le> k" "k \<le> Suc m"
      "snd (ocr_loop E req max_retries (attempt + 1) (Some e) (log @ [req])) =
          log @ replicate (Suc k) req"
      by (auto simp: replicate_append_same)
    then show ?thesis
      using Inl Suc.prems by (intro exI [of _ "Suc k"]) (simp add: ocr_loop_failure)
  next
    case (Inr t)
    then show ?thesis
      using Suc.prems by (intro exI [of _ 1]) (simp add: ocr_loop_success)
  qed
qed

subsection \<open>Evaluating the sample pages\<close>

lemma sample_cookie:
  "first_cookie (login_page (Some session_cookie) html) = Some (ascii ''JSESSIONID=0A1B2C'')"
  by (simp add: first_cookie_def login_page_def session_cookie_def ascii_def)

lemma sample_no_cookie: "first_cookie (login_page None html) = None"
  by (simp add: first_cookie_def login_page_def)

lemma sample_execution: "match_execution form_html = Some (ascii ''e1s1'')"
  by code_simp

lemma sample_no_captcha: "match_captcha form_html = None"
  by code_simp

lemma captcha_execution: "match_execution captcha_html = Some (ascii ''e1s1'')"
  by code_simp

lemma captcha_id: "match_captcha captcha_html = Some (ascii ''8471'')"
  by code_simp

lemma body_text_login_page: "body_text (login_page sc html) = html"
  by (simp add: login_page_def)

lemma serving_first: "sso (serving page) (length ([] :: request list)) = Resolved page"
  by (simp add: serving_def)

lemma empty_token: "match_execution empty_token_html = Some []"
  by code_simp

lemma empty_token_no_captcha: "match_captcha empty_token_html = None"
  by code_simp

lemma answering_bootstrap:
  "getCookieAndExecution (answering response) None [] = (Inr plain_session, [login_page_request])"
  by (simp add: getCookieAndExecution_def fetch_def answering_def sample_cookie
      body_text_login_page sample_execution sample_no_captcha plain_session_def)
    (simp add: ascii_def)

lemma answering_encode: "encodeURIComponent (answering response) s = Inr s"
  by (simp add: answering_def offline_def)

lemma answering_second: "sso (answering response) (length [login_page_request]) = Resolved response"
  by (simp add: answering_def)

subsection \<open>The claims\<close>

text \<open>
  C7. With the same token and a role-listing endpoint that gives the second request the
  outcome it gave the first, the second of two successive calls of \<open>getUserRoles\<close>
  returns what the first returned: the same ordered role list when the token is valid,
  the same error otherwise.
\<close>

theorem getUserRoles_idempotent:
  assumes "role_listing E (Suc (length log)) = role_listing E (length log)"
  shows "fst (getUserRoles E tok (snd (getUserRoles E tok log))) = fst (getUserRoles E tok log)"
  using assms
  by (simp add: getUserRoles_log)
    (simp add: getUserRoles_def fetch_def split: outcome.splits sum.splits)

theorem getUserRoles_idempotent_witness:
  "role_listing (with_roles [student_role]) (Suc (length ([] :: request list))) =
     role_listing (with_roles [student_role]) (length ([] :: request list)) \<and>
   fst (getUserRoles (with_roles [student_role]) (ascii ''tok'') []) = Inr [student_role] \<and>
   fst (getUserRoles (with_roles [student_role]) (ascii ''tok'')
          (snd (getUserRoles (with_roles [student_role]) (ascii ''tok'') []))) =
     fst (getUserRoles (with_roles [student_role]) (ascii ''tok'') [])"
proof -
  have same: "role_listing (with_roles [student_role]) (Suc (length ([] :: request list))) =
      role_listing (with_roles [student_role]) (length ([] :: request list))"
    by (simp add: with_roles_def)
  have first: "fst (getUserRoles (with_roles [student_role]) (ascii ''tok'') []) = Inr [student_role]"
    by (simp add: getUserRoles_def fetch_def with_roles_def offline_def sample_response_def ok_def)
  show ?thesis
    using same first getUserRoles_idempotent [OF same, of "ascii ''tok''"] by simp
qed

text \<open>
  C3. When the role list returned for the token has no entry whose \<open>roleName\<close> is the
  requested role, \<open>refresh\<close> throws the \<open>LoginError\<close> "the user has no role ..." (the
  RoleNotFoundError of the specification), and the only request it has issued is the one
  to the role listing: none goes to the OAuth token endpoint.
\<close>

theorem refresh_role_not_found:
  assumes "getUserRoles E tok log = (Inr rs, log')"
    and "wanted \<notin> roleName ` set rs"
  shows "refresh E tok (Some wanted) log =
           (Inl (LoginError (no_such_role @ Role_value wanted)), log @ [roles_request tok]) \<and>
         url (roles_request tok) \<noteq> oauth_token_url"
proof -
  have log': "log' = log @ [roles_request tok]"
    using assms(1) getUserRoles_log [of E tok log] by simp
  have none: "find (\<lambda>r. roleName r = wanted) rs = None"
    using assms(2) by (auto simp: find_None_iff)
  have "url (roles_request tok) \<noteq> oauth_token_url"
    by (simp add: roles_request_def listByUserId_url_def oauth_token_url_def ascii_def)
  then show ?thesis
    using assms(1) none log' by (simp add: refresh_def)
qed

theorem refresh_role_not_found_witness:
  "getUserRoles (with_roles [student_role]) (ascii ''tok'') [] =
     (Inr [student_role], [roles_request (ascii ''tok'')]) \<and>
   Teacher \<notin> roleName ` set [student_role] \<and>
   refresh (with_roles [student_role]) (ascii ''tok'') (Some Teacher) [] =
     (Inl (LoginError (no_such_role @ Role_value Teacher)), [] @ [roles_request (ascii ''tok'')]) \<and>
   url (roles_request (ascii ''tok'')) \<noteq> oauth_token_url"
proof -
  have listed: "getUserRoles (with_roles [student_role]) (ascii ''tok'') [] =
      (Inr [student_role], [roles_request (ascii ''tok'')])"
    by (simp add: getUserRoles_def fetch_def with_roles_def offline_def sample_response_def ok_def)
  have absent: "Teacher \<notin> roleName ` set [student_role]"
    by (simp add: student_role_def)
  show ?thesis
    using listed absent refresh_role_not_found [OF listed absent] by simp
qed

text \<open>
  C5. When the response to the login-page request has no \<^verbatim>\<open>Set-Cookie\<close> header, or the
  first \<^verbatim>\<open>;\<close>-delimited segment of the header is empty, \<open>login\<close> throws the \<open>LoginError\<close>
  numbered -1 (a ProtocolError of the specification), and the only request of the call is
  the \<^verbatim>\<open>GET\<close> of the login page: the credentials are never posted.
\<close>

theorem login_no_cookie:
  assumes "sso E (length log) = Resolved res"
    and "first_cookie res = None \<or> first_cookie res = Some []"
  shows "login E username password options log = (Inl no_cookie, log @ [login_page_request]) \<and>
         req_method login_page_request = GET"
proof -
  have "req_method login_page_request = GET"
    by (simp add: login_page_request_def)
  moreover have "login E username password options log = (Inl no_cookie, log @ [login_page_request])"
    using assms(2)
    by (auto simp: login_def getCookieAndExecution_def page_fetch [OF assms(1)])
  ultimately show ?thesis by simp
qed

theorem login_no_cookie_witness:
  "sso (serving (login_page None form_html)) (length ([] :: request list)) =
     Resolved (login_page None form_html) \<and>
   first_cookie (login_page None form_html) = None \<and>
   login (serving (login_page None form_html)) (ascii ''2021211001'') (ascii ''hunter2'') None [] =
     (Inl no_cookie, [] @ [login_page_request]) \<and>
   req_method login_page_request = GET"
  using login_no_cookie [OF serving_first, of "login_page None form_html"
      "ascii ''2021211001''" "ascii ''hunter2''" None]
  by (simp add: sample_no_cookie serving_def)

text \<open>
  C4, as the source has it. The cookie and the \<^verbatim>\<open>execution\<close> field are checked before
  the captcha block is looked at. When the login page yields a session cookie and an
  \<^verbatim>\<open>execution\<close> value and embeds a captcha id, and neither \<^verbatim>\<open>onCaptcha\<close> nor \<^verbatim>\<open>ocr\<close> is
  configured, \<open>login\<close> throws the \<open>LoginError\<close> numbered -3 (the ConfigError of the
  specification), and the only request of the call is the \<^verbatim>\<open>GET\<close> of the login page.
\<close>

theorem login_no_captcha_handler:
  assumes "sso E (length log) = Resolved res"
    and "first_cookie res = Some c" and "c \<noteq> []"
    and "match_execution (body_text res) = Some e"
    and "match_captcha (body_text res) = Some capthas_id" and "capthas_id \<noteq> []"
    and "Option.bind options onCaptcha = None"
    and "Option.bind options ocr = None"
  shows "login E username password options log =
           (Inl no_captcha_handler, log @ [login_page_request]) \<and>
         req_method login_page_request = GET"
proof -
  have "req_method login_page_request = GET"
    by (simp add: login_page_request_def)
  moreover have "login E username password options log =
      (Inl no_captcha_handler, log @ [login_page_request])"
    using assms(2-8)
    by (simp add: login_def getCookieAndExecution_def page_fetch [OF assms(1)] resolve_captcha_def)
  ultimately show ?thesis by simp
qed

theorem login_no_captcha_handler_witness:
  "sso (serving (login_page (Some session_cookie) captcha_html)) (length ([] :: request list)) =
     Resolved (login_page (Some session_cookie) captcha_html) \<and>
   first_cookie (login_page (Some session_cookie) captcha_html) = Some (ascii ''JSESSIONID=0A1B2C'') \<and>
   ascii ''JSESSIONID=0A1B2C'' \<noteq> [] \<and>
   match_execution (body_text (login_page (Some session_cookie) captcha_html)) = Some (ascii ''e1s1'') \<and>
   match_captcha (body_text (login_page (Some session_cookie) captcha_html)) = Some (ascii ''8471'') \<and>
   ascii ''8471'' \<noteq> [] \<and>
   Option.bind (None :: loginOptions option) onCaptcha = None \<and>
   Option.bind (None :: loginOptions option) ocr = None \<and>
   login (serving (login_page (Some session_cookie) captcha_html))
       (ascii ''2021211001'') (ascii ''hunter2'') None [] =
     (Inl no_captcha_handler, [] @ [login_page_request]) \<and>
   req_method login_page_request = GET"
proof -
  let ?page = "login_page (Some session_cookie) captcha_html"
  have c: "first_cookie ?page = Some (ascii ''JSESSIONID=0A1B2C'')"
    by (rule sample_cookie)
  have c': "ascii ''JSESSIONID=0A1B2C'' \<noteq> []"
    by (simp add: ascii_def)
  have e: "match_execution (body_text ?page) = Some (ascii ''e1s1'')"
    by (simp add: body_text_login_page captcha_execution)
  have i: "match_captcha (body_text ?page) = Some (ascii ''8471'')"
    by (simp add: body_text_login_page captcha_id)
  have i': "ascii ''8471'' \<noteq> []"
    by (simp add: ascii_def)
  have n1: "Option.bind (None :: loginOptions option) onCaptcha = None"
    by simp
  have n2: "Option.bind (None :: loginOptions option) ocr = None"
    by simp
  show ?thesis
    using c c' e i i' login_no_captcha_handler [OF serving_first c c' e i i' n1 n2,
        of "ascii ''2021211001''" "ascii ''hunter2''"]
    by (simp add: serving_def)
qed

text \<open>
  C4, as the claim states it, fails: a login page that embeds a captcha id but comes
  without a \<^verbatim>\<open>Set-Cookie\<close> header makes \<open>login\<close> throw the error numbered -1 (no cookie),
  not the one numbered -3, whatever the options are.
\<close>

theorem login_no_captcha_handler_counterexample:
  "match_captcha (body_text (login_page None captcha_html)) = Some (ascii ''8471'') \<and>
   Option.bind (None :: loginOptions option) onCaptcha = None \<and>
   Option.bind (None :: loginOptions option) ocr = None \<and>
   fst (login (serving (login_page None captcha_html)) (ascii ''2021211001'') (ascii ''hunter2'')
          None []) = Inl no_cookie \<and>
   no_cookie \<noteq> no_captcha_handler"
proof -
  have "fst (login (serving (login_page None captcha_html)) (ascii ''2021211001'')
      (ascii ''hunter2'') None []) = Inl no_cookie"
    by (simp add: login_def getCookieAndExecution_def fetch_def serving_def offline_def
        sample_no_cookie)
  moreover have "no_cookie \<noteq> no_captcha_handler"
    by (simp add: no_cookie_def no_captcha_handler_def login_failed_def ascii_def)
  ultimately show ?thesis
    by (simp add: body_text_login_page captcha_id)
qed

text \<open>
  C9. When a captcha id has been found and both \<^verbatim>\<open>onCaptcha\<close> and \<^verbatim>\<open>ocr\<close> are configured,
  the captcha is resolved by the callback: the step returns the text the callback gives
  (or throws what the callback throws) and adds no request to the log; so does
  \<open>getCookieAndExecution\<close> on a page that yields a cookie, an \<^verbatim>\<open>execution\<close> value and a
  captcha id. Whatever the login page is, no request of the whole \<open>login\<close> call goes to
  the OCR endpoint.
\<close>

theorem onCaptcha_precedes_ocr:
  assumes "options = Some opts"
    and "onCaptcha opts = Some callback"
    and "ocr opts = Some oc"
  shows "resolve_captcha E options capthas_id c e log =
           ((case callback (captchaUrl capthas_id (Math_random_toString E)) c of
               Inl err \<Rightarrow> Inl err
             | Inr captchaText \<Rightarrow>
                 Inr \<lparr>id = capthas_id, cookie = c, execution = e, captcha = Some captchaText\<rparr>),
            log) \<and>
         (\<forall>res. sso E (length log) = Resolved res \<and> first_cookie res = Some c \<and> c \<noteq> [] \<and>
            match_execution (body_text res) = Some e \<and>
            match_captcha (body_text res) = Some capthas_id \<and> capthas_id \<noteq> [] \<longrightarrow>
          getCookieAndExecution E options log =
            ((case callback (captchaUrl capthas_id (Math_random_toString E)) c of
                Inl err \<Rightarrow> Inl err
              | Inr captchaText \<Rightarrow>
                  Inr \<lparr>id = capthas_id, cookie = c, execution = e, captcha = Some captchaText\<rparr>),
             log @ [login_page_request])) \<and>
         filter to_ocr (issued log (snd (login E username password options log))) = []"
proof -
  have cb: "Option.bind options onCaptcha = Some callback"
    using assms by simp
  have step: "resolve_captcha E options capthas_id c e l =
           ((case callback (captchaUrl capthas_id (Math_random_toString E)) c of
               Inl err \<Rightarrow> Inl err
             | Inr captchaText \<Rightarrow>
                 Inr \<lparr>id = capthas_id, cookie = c, execution = e, captcha = Some captchaText\<rparr>),
            l)" for l
    using cb by (simp add: resolve_captcha_def split: sum.splits)
  have boot: "\<forall>res. sso E (length log) = Resolved res \<and> first_cookie res = Some c \<and> c \<noteq> [] \<and>
            match_execution (body_text res) = Some e \<and>
            match_captcha (body_text res) = Some capthas_id \<and> capthas_id \<noteq> [] \<longrightarrow>
          getCookieAndExecution E options log =
            ((case callback (captchaUrl capthas_id (Math_random_toString E)) c of
                Inl err \<Rightarrow> Inl err
              | Inr captchaText \<Rightarrow>
                  Inr \<lparr>id = capthas_id, cookie = c, execution = e, captcha = Some captchaText\<rparr>),
             log @ [login_page_request])"
    by (auto simp: getCookieAndExecution_def page_fetch step)
  obtain x log1 where g: "getCookieAndExecution E options log = (x, log1)"
    by force
  have q0: "quiet log log1"
    using callback_bootstrap_log [OF cb, of E log] g by (simp add: quiet_snoc not_ocr)
  have "quiet log (snd (login E username password options log))"
  proof (cases x)
    case (Inl err)
    then show ?thesis using g q0 by (simp add: login_def)
  next
    case (Inr sd)
    then show ?thesis
      using g quiet_trans [OF q0 quiet_login_tail] by simp
  qed
  then have "filter to_ocr (issued log (snd (login E username password options log))) = []"
    by (rule quiet_issued)
  with step [of log] boot show ?thesis by blast
qed

theorem onCaptcha_precedes_ocr_witness:
  "Some both_handlers = Some both_handlers \<and>
   onCaptcha both_handlers = Some (\<lambda>captcha_url c. Inr (ascii ''x7k2'')) \<and>
   ocr both_handlers = Some \<lparr>token = ascii ''secret'', maxRetries = None\<rparr> \<and>
   resolve_captcha (serving (login_page (Some session_cookie) captcha_html)) (Some both_handlers)
       (ascii ''8471'') (ascii ''JSESSIONID=0A1B2C'') (ascii ''e1s1'') [login_page_request] =
     (Inr captcha_session, [login_page_request]) \<and>
   first_cookie (login_page (Some session_cookie) captcha_html) = Some (ascii ''JSESSIONID=0A1B2C'') \<and>
   match_execution (body_text (login_page (Some session_cookie) captcha_html)) = Some (ascii ''e1s1'') \<and>
   match_captcha (body_text (login_page (Some session_cookie) captcha_html)) = Some (ascii ''8471'') \<and>
   getCookieAndExecution (serving (login_page (Some session_cookie) captcha_html))
       (Some both_handlers) [] =
     (Inr captcha_session, [login_page_request]) \<and>
   filter to_ocr (issued []
     (snd (login (serving (login_page (Some session_cookie) captcha_html))
        (ascii ''2021211001'') (ascii ''hunter2'') (Some both_handlers) []))) = []"
proof -
  let ?c = "ascii ''JSESSIONID=0A1B2C''" and ?e = "ascii ''e1s1''" and ?i = "ascii ''8471''"
  let ?page = "login_page (Some session_cookie) captcha_html"
  let ?cb = "\<lambda>(captcha_url :: jsstring) (c :: jsstring). (Inr (ascii ''x7k2'') :: js_error + jsstring)"
  have h2: "onCaptcha both_handlers = Some ?cb"
    by (simp add: both_handlers_def)
  have h3: "ocr both_handlers = Some \<lparr>token = ascii ''secret'', maxRetries = None\<rparr>"
    by (simp add: both_handlers_def)
  have p1: "first_cookie ?page = Some ?c"
    by (rule sample_cookie)
  have p2: "?c \<noteq> []" "?i \<noteq> []"
    by (simp_all add: ascii_def)
  have p3: "match_execution (body_text ?page) = Some ?e"
    by (simp add: body_text_login_page captcha_execution)
  have p4: "match_captcha (body_text ?page) = Some ?i"
    by (simp add: body_text_login_page captcha_id)
  have sd: "(case ?cb (captchaUrl ?i (Math_random_toString (serving ?page))) ?c of
        Inl err \<Rightarrow> Inl err
      | Inr captchaText \<Rightarrow>
          Inr \<lparr>id = ?i, cookie = ?c, execution = ?e, captcha = Some captchaText\<rparr>) =
      (Inr captcha_session :: js_error + sessionData)"
    by (simp add: captcha_session_def)
  note W1 = onCaptcha_precedes_ocr [OF refl h2 h3, of "serving ?page" ?i ?c ?e
      "[login_page_request]" "ascii ''2021211001''" "ascii ''hunter2''"]
  note W2 = onCaptcha_precedes_ocr [OF refl h2 h3, of "serving ?page" ?i ?c ?e
      "[]" "ascii ''2021211001''" "ascii ''hunter2''"]
  have a: "resolve_captcha (serving ?page) (Some both_handlers) ?i ?c ?e [login_page_request] =
     (Inr captcha_session, [login_page_request])"
    using W1 unfolding sd by blast
  have b: "getCookieAndExecution (serving ?page) (Some both_handlers) [] =
     (Inr captcha_session, [login_page_request])"
  proof -
    from W2 have "sso (serving ?page) (length ([] :: request list)) = Resolved ?page \<and>
        first_cookie ?page = Some ?c \<and> ?c \<noteq> [] \<and>
        match_execution (body_text ?page) = Some ?e \<and>
        match_captcha (body_text ?page) = Some ?i \<and> ?i \<noteq> [] \<longrightarrow>
      getCookieAndExecution (serving ?page) (Some both_handlers) [] =
        (Inr captcha_session, [] @ [login_page_request])"
      unfolding sd by blast
    with serving_first [of ?page] p1 p2 p3 p4 show ?thesis by simp
  qed
  have c: "filter to_ocr (issued []
     (snd (login (serving ?page) (ascii ''2021211001'') (ascii ''hunter2'') (Some both_handlers) []))) = []"
    using W2 by blast
  from h2 h3 a p1 p3 p4 b c show ?thesis by blast
qed

text \<open>
  C6. The cookie half of the invariant holds: the session data that
  \<open>getCookieAndExecution\<close> returns always has a non-empty cookie.
\<close>

lemma bootstrap_cookie_nonempty:
  assumes "getCookieAndExecution E options log = (Inr sd, log')"
  shows "cookie sd \<noteq> []"
  using assms
  by (auto simp: getCookieAndExecution_def fetch_def resolve_captcha_def Let_def
      split: outcome.splits option.splits sum.splits if_splits prod.splits)

text \<open>
  C6. The other half does not: line 166 tests the length of the match array, which is
  never empty, and not that of the captured value. On a login page whose \<^verbatim>\<open>execution\<close>
  field is \<^verbatim>\<open>value=""\<close> the session data has the empty \<open>execution\<close>, and \<open>login\<close> goes
  on to post the credentials with \<^verbatim>\<open>execution=\<close> followed by nothing.
\<close>

theorem empty_execution_submitted:
  "getCookieAndExecution (serving (login_page (Some session_cookie) empty_token_html)) None [] =
     (Inr \<lparr>id = [], cookie = ascii ''JSESSIONID=0A1B2C'', execution = [], captcha = None\<rparr>,
      [login_page_request]) \<and>
   snd (login (serving (login_page (Some session_cookie) empty_token_html))
          (ascii ''2021211001'') (ascii ''hunter2'') None []) =
     [login_page_request,
      submit_request (ascii ''username=2021211001&password=hunter2'')
        \<lparr>id = [], cookie = ascii ''JSESSIONID=0A1B2C'', execution = [], captcha = None\<rparr>] \<and>
   submit_body (ascii ''username=2021211001&password=hunter2'')
        \<lparr>id = [], cookie = ascii ''JSESSIONID=0A1B2C'', execution = [], captcha = None\<rparr> =
     ascii ''username=2021211001&password=hunter2&submit=%E7%99%BB%E5%BD%95&type=username_password&execution=&_eventId=submit''"
proof -
  have g: "getCookieAndExecution (serving (login_page (Some session_cookie) empty_token_html)) None [] =
     (Inr \<lparr>id = [], cookie = ascii ''JSESSIONID=0A1B2C'', execution = [], captcha = None\<rparr>,
      [login_page_request])"
    by (simp add: getCookieAndExecution_def fetch_def serving_def sample_cookie
        body_text_login_page empty_token empty_token_no_captcha)
      (simp add: ascii_def)
  have enc: "encodeURIComponent (serving page) = Inr" for page
    by (simp add: serving_def offline_def)
  have l: "snd (login (serving (login_page (Some session_cookie) empty_token_html))
          (ascii ''2021211001'') (ascii ''hunter2'') None []) =
     [login_page_request,
      submit_request (ascii ''username=2021211001&password=hunter2'')
        \<lparr>id = [], cookie = ascii ''JSESSIONID=0A1B2C'', execution = [], captcha = None\<rparr>]"
    by (simp add: login_def g enc fetch_def) (simp add: serving_def ascii_def)
  have b: "submit_body (ascii ''username=2021211001&password=hunter2'')
        \<lparr>id = [], cookie = ascii ''JSESSIONID=0A1B2C'', execution = [], captcha = None\<rparr> =
     ascii ''username=2021211001&password=hunter2&submit=%E7%99%BB%E5%BD%95&type=username_password&execution=&_eventId=submit''"
    by (simp add: submit_body_def ascii_def)
  show ?thesis using g l b by simp
qed

text \<open>
  C8, as the source has it. The challenge URL is the captcha endpoint, the id,
  \<^verbatim>\<open>&r=\<close> and the code units 2 to 6 of \<^verbatim>\<open>Math.random().toString()\<close>: at most five of
  them, and five digits whenever that string is \<^verbatim>\<open>0.\<close> followed by at least five digits.
\<close>

theorem captchaUrl_suffix:
  "captchaUrl capthas_id random =
     ascii ''https://auth.bupt.edu.cn/authserver/captcha?captchaId='' @ capthas_id @
     ascii ''&r='' @ take 5 (drop 2 random) \<and>
   length (take 5 (drop 2 random)) \<le> 5 \<and>
   (\<forall>ds. random = ascii ''0.'' @ ds \<and> 5 \<le> length ds \<and> list_all digit ds \<longrightarrow>
      take 5 (drop 2 random) = take 5 ds \<and> five_digits (take 5 (drop 2 random)))"
  by (auto simp: captchaUrl_def slice_def five_digits_def ascii_def list_all_iff dest: in_set_takeD)

theorem captchaUrl_suffix_witness:
  "Math_random_toString offline = ascii ''0.'' @ ascii ''7312894561238'' \<and>
   5 \<le> length (ascii ''7312894561238'') \<and> list_all digit (ascii ''7312894561238'') \<and>
   captchaUrl (ascii ''8471'') (Math_random_toString offline) =
     ascii ''https://auth.bupt.edu.cn/authserver/captcha?captchaId=8471&r=73128'' \<and>
   five_digits (take 5 (drop 2 (Math_random_toString offline)))"
proof -
  have r: "Math_random_toString offline = ascii ''0.'' @ ascii ''7312894561238''"
    by (simp add: offline_def ascii_def)
  have l: "5 \<le> length (ascii ''7312894561238'')"
    by (simp add: ascii_def)
  have d: "list_all digit (ascii ''7312894561238'')"
    by (simp add: ascii_def digit_def)
  have "take 5 (drop 2 (Math_random_toString offline)) = ascii ''73128''"
    by (simp add: offline_def ascii_def)
  then show ?thesis
    using r l d captchaUrl_suffix [of "ascii ''8471''" "Math_random_toString offline"]
    by (simp add: ascii_def)
qed

text \<open>
  C8, as the claim states it, fails. \<^verbatim>\<open>Math.random()\<close> can return 0.5, whose string is
  \<^verbatim>\<open>0.5\<close>: the suffix is the one character \<^verbatim>\<open>5\<close>. It can return 0.0000001, whose string
  is \<^verbatim>\<open>1e-7\<close>: the suffix is \<^verbatim>\<open>-7\<close>.
\<close>

theorem captchaUrl_suffix_counterexample:
  "captchaUrl (ascii ''8471'') (ascii ''0.5'') =
     ascii ''https://auth.bupt.edu.cn/authserver/captcha?captchaId=8471&r=5'' \<and>
   \<not> five_digits (ascii ''5'') \<and>
   captchaUrl (ascii ''8471'') (ascii ''1e-7'') =
     ascii ''https://auth.bupt.edu.cn/authserver/captcha?captchaId=8471&r=-7'' \<and>
   \<not> five_digits (ascii ''-7'')"
  by (simp add: captchaUrl_def slice_def five_digits_def ascii_def)

subsection \<open>The status in a message\<close>

lemma decimal_snoc: "decimal (s @ [c]) = 10 * decimal s + (unat c - 48)"
  by (simp add: decimal_def)

lemma unat_of_nat_digit: "k < 10 \<Longrightarrow> unat (of_nat (48 + k) :: 16 word) = 48 + k"
  unfolding unat_of_nat by simp

lemma unat_digit: "k < 10 \<Longrightarrow> unat (48 + of_nat k :: 16 word) = 48 + k"
  using unat_of_nat_digit [of k] by simp

text \<open>\<open>digits\<close> writes a number in decimal: its digits read back give the number.\<close>

lemma decimal_digits: "decimal (digits n) = n"
proof (induction n rule: digits.induct)
  case (1 n)
  show ?case
  proof (cases "n < 10")
    case True
    then show ?thesis
      by (subst digits.simps) (simp add: decimal_def unat_digit)
  next
    case False
    have "digits n = digits (n div 10) @ [of_nat (48 + n mod 10)]"
      using False by (subst digits.simps) simp
    moreover have "decimal (digits (n div 10)) = n div 10"
      using False by (intro "1.IH") simp
    ultimately show ?thesis
      by (simp add: decimal_snoc unat_digit)
  qed
qed

lemma digit_of_nat: "k < 10 \<Longrightarrow> digit (48 + of_nat k :: 16 word)"
  by (simp add: digit_def word_le_nat_alt unat_digit)

lemma digits_are_digits: "list_all digit (digits n)"
proof (induction n rule: digits.induct)
  case (1 n)
  show ?case
  proof (cases "n < 10")
    case True
    then show ?thesis
      by (subst digits.simps) (simp add: digit_of_nat)
  next
    case False
    have "digits n = digits (n div 10) @ [of_nat (48 + n mod 10)]"
      using False by (subst digits.simps) simp
    moreover have "list_all digit (digits (n div 10))"
      using False by (intro "1.IH") simp
    ultimately show ?thesis
      by (simp add: digit_of_nat)
  qed
qed

lemma digits_500: "digits 500 = ascii ''500''"
  by code_simp

text \<open>When the response to the submission yields an error, \<open>login\<close> throws it.\<close>

lemma login_submission:
  assumes "getCookieAndExecution E options log = (Inr sd, log1)"
    and "encodeURIComponent E username = Inr u"
    and "encodeURIComponent E password = Inr p"
    and "sso E (length log1) = Resolved response"
    and "ticket_of E response = Inl err"
  shows "login E username password options log =
     (Inl err, log1 @ [submit_request (ascii ''username='' @ u @ ascii ''&password='' @ p) sd])"
  using assms by (simp add: login_def fetch_def)

text \<open>
  C1, as the source has it. Let \<open>login\<close> have reached the credential submission and
  received a response; in each case below the log ends with the submission.
  \<^item> Status 401 with the message \<^verbatim>\<open>Invalid credentials.\<close> in the alert block: the error
    numbered 3 (InvalidCredentialsError).
  \<^item> Status 401 with any other message that is not empty: the error numbered 4, whose
    text is the prefix and that message (AuthServerError with the message). With an empty
    message or none: the error numbered 2, "unknown error".
  \<^item> Any status other than 302 and 401: the error numbered 1, whose text is the prefix,
    the status in decimal, a space, the status text and, in brackets, the message when
    there is one (AuthServerError with the status).
  \<^item> Status 302 with a \<^verbatim>\<open>Location\<close> that \<^verbatim>\<open>new URL\<close> accepts and that has no \<^verbatim>\<open>ticket\<close>
    parameter, or an empty one: the error numbered 6 (ProtocolError).
  \<^item> The errors numbered 3, 4, 1 and 6 are pairwise different, whatever the message, the
    status and the status text are.
  Nothing is said of a \<^verbatim>\<open>Location\<close> that \<^verbatim>\<open>new URL\<close> rejects.
\<close>

theorem submission_errors:
  assumes "getCookieAndExecution E options log = (Inr sd, log1)"
    and "encodeURIComponent E username = Inr u"
    and "encodeURIComponent E password = Inr p"
    and "sso E (length log1) = Resolved response"
  shows
   "(status response = 401 \<and>
       alert_danger_message (body_text response) = Some (ascii ''Invalid credentials.'') \<longrightarrow>
     login E username password options log =
       (Inl wrong_password,
        log1 @ [submit_request (ascii ''username='' @ u @ ascii ''&password='' @ p) sd])) \<and>
    (\<forall>m. status response = 401 \<and> alert_danger_message (body_text response) = Some m \<and>
       m \<noteq> [] \<and> m \<noteq> ascii ''Invalid credentials.'' \<longrightarrow>
     login E username password options log =
       (Inl (LoginError (login_failed ''4'' @ m)),
        log1 @ [submit_request (ascii ''username='' @ u @ ascii ''&password='' @ p) sd])) \<and>
    (status response = 401 \<and>
       (alert_danger_message (body_text response) = None \<or>
        alert_danger_message (body_text response) = Some []) \<longrightarrow>
     login E username password options log =
       (Inl unknown_error,
        log1 @ [submit_request (ascii ''username='' @ u @ ascii ''&password='' @ p) sd])) \<and>
    (status response \<noteq> 302 \<and> status response \<noteq> 401 \<longrightarrow>
     login E username password options log =
       (Inl (LoginError (login_failed ''1'' @ digits (status response) @ ascii '' '' @
          statusText response @
          (case alert_danger_message (body_text response) of
             None \<Rightarrow> []
           | Some m \<Rightarrow> if m = [] then [] else ascii ''('' @ m @ ascii '')''))),
        log1 @ [submit_request (ascii ''username='' @ u @ ascii ''&password='' @ p) sd]) \<and>
     decimal (digits (status response)) = status response \<and>
     list_all digit (digits (status response))) \<and>
    (\<forall>loc search. status response = 302 \<and> location response = Some loc \<and> loc \<noteq> [] \<and>
       URL_search E loc = Some search \<and>
       (URLSearchParams_get E search (ascii ''ticket'') = None \<or>
        URLSearchParams_get E search (ascii ''ticket'') = Some []) \<longrightarrow>
     login E username password options log =
       (Inl no_ticket,
        log1 @ [submit_request (ascii ''username='' @ u @ ascii ''&password='' @ p) sd])) \<and>
    (\<forall>m rest.
       wrong_password \<noteq> LoginError (login_failed ''4'' @ m) \<and>
       wrong_password \<noteq> LoginError (login_failed ''1'' @ rest) \<and>
       wrong_password \<noteq> no_ticket \<and>
       LoginError (login_failed ''4'' @ m) \<noteq> LoginError (login_failed ''1'' @ rest) \<and>
       LoginError (login_failed ''4'' @ m) \<noteq> no_ticket \<and>
       LoginError (login_failed ''1'' @ rest) \<noteq> no_ticket)"
proof -
  let ?log = "log1 @ [submit_request (ascii ''username='' @ u @ ascii ''&password='' @ p) sd]"
  note sub = login_submission [OF assms]
  have a: "status response = 401 \<and>
       alert_danger_message (body_text response) = Some (ascii ''Invalid credentials.'') \<longrightarrow>
     login E username password options log = (Inl wrong_password, ?log)"
    by (auto simp: sub ticket_of_def ascii_def)
  have b: "\<forall>m. status response = 401 \<and> alert_danger_message (body_text response) = Some m \<and>
       m \<noteq> [] \<and> m \<noteq> ascii ''Invalid credentials.'' \<longrightarrow>
     login E username password options log = (Inl (LoginError (login_failed ''4'' @ m)), ?log)"
    by (auto simp: sub ticket_of_def server_message_def)
  have b': "status response = 401 \<and>
       (alert_danger_message (body_text response) = None \<or>
        alert_danger_message (body_text response) = Some []) \<longrightarrow>
     login E username password options log = (Inl unknown_error, ?log)"
    by (auto simp: sub ticket_of_def)
  have c: "status response \<noteq> 302 \<and> status response \<noteq> 401 \<longrightarrow>
     login E username password options log =
       (Inl (LoginError (login_failed ''1'' @ digits (status response) @ ascii '' '' @
          statusText response @
          (case alert_danger_message (body_text response) of
             None \<Rightarrow> []
           | Some m \<Rightarrow> if m = [] then [] else ascii ''('' @ m @ ascii '')''))),
        ?log) \<and>
     decimal (digits (status response)) = status response \<and>
     list_all digit (digits (status response))"
    by (auto simp: sub ticket_of_def bad_status_def status_line_def decimal_digits
        digits_are_digits split: option.splits)
  have d: "\<forall>loc search. status response = 302 \<and> location response = Some loc \<and> loc \<noteq> [] \<and>
       URL_search E loc = Some search \<and>
       (URLSearchParams_get E search (ascii ''ticket'') = None \<or>
        URLSearchParams_get E search (ascii ''ticket'') = Some []) \<longrightarrow>
     login E username password options log = (Inl no_ticket, ?log)"
    by (auto simp: sub ticket_of_def)
  have e: "\<forall>m rest.
       wrong_password \<noteq> LoginError (login_failed ''4'' @ m) \<and>
       wrong_password \<noteq> LoginError (login_failed ''1'' @ rest) \<and>
       wrong_password \<noteq> no_ticket \<and>
       LoginError (login_failed ''4'' @ m) \<noteq> LoginError (login_failed ''1'' @ rest) \<and>
       LoginError (login_failed ''4'' @ m) \<noteq> no_ticket \<and>
       LoginError (login_failed ''1'' @ rest) \<noteq> no_ticket"
    by (simp add: wrong_password_def no_ticket_def login_failed_def ascii_def)
  from a b b' c d e show ?thesis by blast
qed

theorem submission_errors_witness:
  "getCookieAndExecution
       (answering (error_page 401 (ascii ''Unauthorized'') (ascii ''Invalid credentials.''))) None [] =
     (Inr plain_session, [login_page_request]) \<and>
   status (error_page 401 (ascii ''Unauthorized'') (ascii ''Invalid credentials.'')) = 401 \<and>
   alert_danger_message
       (body_text (error_page 401 (ascii ''Unauthorized'') (ascii ''Invalid credentials.''))) =
     Some (ascii ''Invalid credentials.'') \<and>
   login (answering (error_page 401 (ascii ''Unauthorized'') (ascii ''Invalid credentials.'')))
       (ascii ''2021211001'') (ascii ''hunter2'') None [] =
     (Inl wrong_password,
      [login_page_request, submit_request (ascii ''username=2021211001&password=hunter2'') plain_session]) \<and>
   alert_danger_message
       (body_text (error_page 401 (ascii ''Unauthorized'') (ascii ''Account locked.''))) =
     Some (ascii ''Account locked.'') \<and>
   login (answering (error_page 401 (ascii ''Unauthorized'') (ascii ''Account locked.'')))
       (ascii ''2021211001'') (ascii ''hunter2'') None [] =
     (Inl (LoginError (login_failed ''4'' @ ascii ''Account locked.'')),
      [login_page_request, submit_request (ascii ''username=2021211001&password=hunter2'') plain_session]) \<and>
   alert_danger_message (body_text (error_page 401 (ascii ''Unauthorized'') [])) = Some [] \<and>
   login (answering (error_page 401 (ascii ''Unauthorized'') []))
       (ascii ''2021211001'') (ascii ''hunter2'') None [] =
     (Inl unknown_error,
      [login_page_request, submit_request (ascii ''username=2021211001&password=hunter2'') plain_session]) \<and>
   status (error_page 500 (ascii ''Internal Server Error'') (ascii ''Oops'')) = 500 \<and>
   alert_danger_message
       (body_text (error_page 500 (ascii ''Internal Server Error'') (ascii ''Oops''))) =
     Some (ascii ''Oops'') \<and>
   login (answering (error_page 500 (ascii ''Internal Server Error'') (ascii ''Oops'')))
       (ascii ''2021211001'') (ascii ''hunter2'') None [] =
     (Inl (LoginError (login_failed ''1'' @ ascii ''500 Internal Server Error(Oops)'')),
      [login_page_request, submit_request (ascii ''username=2021211001&password=hunter2'') plain_session]) \<and>
   decimal (ascii ''500'') = 500 \<and>
   status (redirect_to (ascii ''https://ucloud.bupt.edu.cn/?lang=zh'')) = 302 \<and>
   URL_search (answering (redirect_to (ascii ''https://ucloud.bupt.edu.cn/?lang=zh'')))
       (ascii ''https://ucloud.bupt.edu.cn/?lang=zh'') = Some (ascii ''?lang=zh'') \<and>
   URLSearchParams_get (answering (redirect_to (ascii ''https://ucloud.bupt.edu.cn/?lang=zh'')))
       (ascii ''?lang=zh'') (ascii ''ticket'') = None \<and>
   login (answering (redirect_to (ascii ''https://ucloud.bupt.edu.cn/?lang=zh'')))
       (ascii ''2021211001'') (ascii ''hunter2'') None [] =
     (Inl no_ticket,
      [login_page_request, submit_request (ascii ''username=2021211001&password=hunter2'') plain_session])"
proof -
  let ?r1 = "error_page 401 (ascii ''Unauthorized'') (ascii ''Invalid credentials.'')"
  let ?r2 = "error_page 401 (ascii ''Unauthorized'') (ascii ''Account locked.'')"
  let ?r2' = "error_page 401 (ascii ''Unauthorized'') []"
  let ?r3 = "error_page 500 (ascii ''Internal Server Error'') (ascii ''Oops'')"
  let ?r4 = "redirect_to (ascii ''https://ucloud.bupt.edu.cn/?lang=zh'')"
  let ?u = "ascii ''2021211001''" and ?p = "ascii ''hunter2''"
  let ?log = "[login_page_request,
      submit_request (ascii ''username=2021211001&password=hunter2'') plain_session]"
  have s1: "status ?r1 = 401" "status ?r2 = 401" "status ?r2' = 401" "status ?r3 = 500"
    "status ?r4 = 302"
    by (simp_all add: error_page_def redirect_to_def)
  have m1: "alert_danger_message (body_text ?r1) = Some (ascii ''Invalid credentials.'')"
    by code_simp
  have m2: "alert_danger_message (body_text ?r2) = Some (ascii ''Account locked.'')"
    by code_simp
  have m2': "ascii ''Account locked.'' \<noteq> []"
    "ascii ''Account locked.'' \<noteq> ascii ''Invalid credentials.''"
    by (simp_all add: ascii_def)
  have m0: "alert_danger_message (body_text ?r2') = Some []"
    by code_simp
  have m3: "alert_danger_message (body_text ?r3) = Some (ascii ''Oops'')"
    by code_simp
  have m3': "ascii ''Oops'' \<noteq> []"
    by (simp add: ascii_def)
  have t3: "statusText ?r3 = ascii ''Internal Server Error''"
    by (simp add: error_page_def)
  have l4: "location ?r4 = Some (ascii ''https://ucloud.bupt.edu.cn/?lang=zh'')"
    "ascii ''https://ucloud.bupt.edu.cn/?lang=zh'' \<noteq> []"
    "URL_search (answering ?r4) (ascii ''https://ucloud.bupt.edu.cn/?lang=zh'') = Some (ascii ''?lang=zh'')"
    "URLSearchParams_get (answering ?r4) (ascii ''?lang=zh'') (ascii ''ticket'') = None"
    by (simp_all add: redirect_to_def answering_def sample_URL_search_def sample_get_def ascii_def)
  have bodyp: "ascii ''username='' @ ?u @ ascii ''&password='' @ ?p =
      ascii ''username=2021211001&password=hunter2''"
    by (simp add: ascii_def)
  have msg: "login_failed ''1'' @ digits 500 @ ascii '' '' @ ascii ''Internal Server Error'' @
      ascii ''('' @ ascii ''Oops'' @ ascii '')'' =
      login_failed ''1'' @ ascii ''500 Internal Server Error(Oops)''"
    by (simp add: digits_500) (simp add: ascii_def)
  have m1': "ascii ''Invalid credentials.'' \<noteq> []"
    by (simp add: ascii_def)
  note w = submission_errors [OF answering_bootstrap answering_encode answering_encode
      answering_second]
  have c1: "login (answering ?r1) ?u ?p None [] = (Inl wrong_password, ?log)"
  proof -
    have "login (answering ?r1) ?u ?p None [] =
        (Inl wrong_password,
         [login_page_request] @
         [submit_request (ascii ''username='' @ ?u @ ascii ''&password='' @ ?p) plain_session])"
      using w [of ?r1 ?u ?p] s1 m1 by blast
    then show ?thesis by (simp add: bodyp)
  qed
  have c2: "login (answering ?r2) ?u ?p None [] =
     (Inl (LoginError (login_failed ''4'' @ ascii ''Account locked.'')), ?log)"
  proof -
    have "login (answering ?r2) ?u ?p None [] =
        (Inl (LoginError (login_failed ''4'' @ ascii ''Account locked.'')),
         [login_page_request] @
         [submit_request (ascii ''username='' @ ?u @ ascii ''&password='' @ ?p) plain_session])"
      using w [of ?r2 ?u ?p] s1 m2 m2' by blast
    then show ?thesis by (simp add: bodyp)
  qed
  have c2': "login (answering ?r2') ?u ?p None [] = (Inl unknown_error, ?log)"
  proof -
    have "login (answering ?r2') ?u ?p None [] =
        (Inl unknown_error,
         [login_page_request] @
         [submit_request (ascii ''username='' @ ?u @ ascii ''&password='' @ ?p) plain_session])"
      using w [of ?r2' ?u ?p] s1 m0 by blast
    then show ?thesis by (simp add: bodyp)
  qed
  have n3: "status ?r3 \<noteq> 302 \<and> status ?r3 \<noteq> 401"
    using s1 by simp
  have w3: "login (answering ?r3) ?u ?p None [] =
       (Inl (LoginError (login_failed ''1'' @ digits (status ?r3) @ ascii '' '' @
          statusText ?r3 @
          (case alert_danger_message (body_text ?r3) of
             None \<Rightarrow> []
           | Some m \<Rightarrow> if m = [] then [] else ascii ''('' @ m @ ascii '')''))),
        [login_page_request] @
        [submit_request (ascii ''username='' @ ?u @ ascii ''&password='' @ ?p) plain_session]) \<and>
     decimal (digits (status ?r3)) = status ?r3 \<and>
     list_all digit (digits (status ?r3))"
    using w [of ?r3 ?u ?p] n3 by blast
  have c3: "login (answering ?r3) ?u ?p None [] =
     (Inl (LoginError (login_failed ''1'' @ ascii ''500 Internal Server Error(Oops)'')), ?log)"
    using w3 msg by (simp add: s1 m3 m3' t3 bodyp)
  have d3: "decimal (ascii ''500'') = 500"
    using w3 by (simp add: s1 digits_500)
  have c4: "login (answering ?r4) ?u ?p None [] = (Inl no_ticket, ?log)"
  proof -
    have "login (answering ?r4) ?u ?p None [] =
        (Inl no_ticket,
         [login_page_request] @
         [submit_request (ascii ''username='' @ ?u @ ascii ''&password='' @ ?p) plain_session])"
      using w [of ?r4 ?u ?p] s1 l4 by blast
    then show ?thesis by (simp add: bodyp)
  qed
  from answering_bootstrap [of ?r1] s1 m1 m2 m0 m3 l4(3,4) c1 c2 c2' c3 d3 c4 show ?thesis
    by blast
qed

text \<open>
  C1, as the claim states it, fails. A 302 whose \<^verbatim>\<open>Location\<close> is the relative reference
  \<^verbatim>\<open>/authserver/login\<close> has no \<^verbatim>\<open>ticket\<close> parameter, but \<^verbatim>\<open>new URL(location)\<close> on line
  298 throws before the ticket is looked for: \<open>login\<close> throws that \<^verbatim>\<open>TypeError\<close>, which is
  no \<open>LoginError\<close> at all, where lines 295 to 302 turn a missing \<^verbatim>\<open>Location\<close> and a missing
  ticket into one. And a 401 whose alert block has the empty message gets the error
  numbered 2, not the one numbered 4.
\<close>

theorem submission_errors_counterexample:
  "status (redirect_to (ascii ''/authserver/login'')) = 302 \<and>
   location (redirect_to (ascii ''/authserver/login'')) = Some (ascii ''/authserver/login'') \<and>
   URL_search (answering (redirect_to (ascii ''/authserver/login''))) (ascii ''/authserver/login'') =
     None \<and>
   login (answering (redirect_to (ascii ''/authserver/login'')))
       (ascii ''2021211001'') (ascii ''hunter2'') None [] =
     (Inl (TypeError (ascii ''Invalid URL'')),
      [login_page_request, submit_request (ascii ''username=2021211001&password=hunter2'') plain_session]) \<and>
   TypeError (ascii ''Invalid URL'') \<noteq> no_ticket \<and>
   TypeError (ascii ''Invalid URL'') \<noteq> no_location \<and>
   login (answering (error_page 401 (ascii ''Unauthorized'') []))
       (ascii ''2021211001'') (ascii ''hunter2'') None [] =
     (Inl unknown_error,
      [login_page_request, submit_request (ascii ''username=2021211001&password=hunter2'') plain_session]) \<and>
   unknown_error \<noteq> LoginError (login_failed ''4'' @ [])"
proof -
  let ?r = "redirect_to (ascii ''/authserver/login'')"
  let ?r' = "error_page 401 (ascii ''Unauthorized'') []"
  let ?u = "ascii ''2021211001''" and ?p = "ascii ''hunter2''"
  have bodyp: "ascii ''username='' @ ?u @ ascii ''&password='' @ ?p =
      ascii ''username=2021211001&password=hunter2''"
    by (simp add: ascii_def)
  have r: "status ?r = 302" "location ?r = Some (ascii ''/authserver/login'')"
    "ascii ''/authserver/login'' \<noteq> []"
    "URL_search (answering ?r) (ascii ''/authserver/login'') = None"
    by (simp_all add: redirect_to_def answering_def sample_URL_search_def ascii_def)
  have t: "ticket_of (answering ?r) ?r = Inl (TypeError (ascii ''Invalid URL''))"
    using r by (simp add: ticket_of_def)
  have m0: "alert_danger_message (body_text ?r') = Some []"
    by code_simp
  have t': "ticket_of (answering ?r') ?r' = Inl unknown_error"
    using m0 by (simp add: ticket_of_def error_page_def)
  have c: "login (answering ?r) ?u ?p None [] =
     (Inl (TypeError (ascii ''Invalid URL'')),
      [login_page_request, submit_request (ascii ''username=2021211001&password=hunter2'') plain_session])"
    using login_submission [OF answering_bootstrap answering_encode answering_encode
        answering_second t, of ?u ?p]
    by (simp add: bodyp)
  have c': "login (answering ?r') ?u ?p None [] =
     (Inl unknown_error,
      [login_page_request, submit_request (ascii ''username=2021211001&password=hunter2'') plain_session])"
    using login_submission [OF answering_bootstrap answering_encode answering_encode
        answering_second t', of ?u ?p]
    by (simp add: bodyp)
  have n: "TypeError (ascii ''Invalid URL'') \<noteq> no_ticket"
    "TypeError (ascii ''Invalid URL'') \<noteq> no_location"
    "unknown_error \<noteq> LoginError (login_failed ''4'' @ [])"
    by (simp_all add: no_ticket_def no_location_def unknown_error_def login_failed_def ascii_def)
  from r(1,2,4) c c' n show ?thesis by blast
qed

text \<open>A text that an attempt returns is not empty.\<close>

lemma ocr_attempt_usable: "ocr_attempt E n = Inr t \<Longrightarrow> t \<noteq> []"
  by (auto simp: ocr_attempt_def ocr_result_def split: outcome.splits sum.splits option.splits if_splits)

lemma resolve_by_ocr:
  assumes "Option.bind options onCaptcha = None"
    and "Option.bind options ocr = Some oc"
  shows "resolve_captcha E options capthas_id c e log =
     (case ocr_loop E (ocr_request E (captchaUrl capthas_id (Math_random_toString E)) (token oc) c)
             (maxRetries_or_3 oc) 0 None log of
        (Inl err, log') \<Rightarrow> (Inl err, log')
      | (Inr captchaText, log') \<Rightarrow>
          (Inr \<lparr>id = capthas_id, cookie = c, execution = e, captcha = Some captchaText\<rparr>, log'))"
  using assms by (simp add: resolve_captcha_def)

lemma resolve_by_ocr_log:
  assumes "Option.bind options onCaptcha = None"
    and "Option.bind options ocr = Some oc"
  shows "snd (resolve_captcha E options capthas_id c e log) =
     snd (ocr_loop E (ocr_request E (captchaUrl capthas_id (Math_random_toString E)) (token oc) c)
             (maxRetries_or_3 oc) 0 None log)"
  by (auto simp: resolve_by_ocr [OF assms] split: prod.splits sum.splits)

lemma bound_of:
  "maxRetries oc = Some (int n) \<and> 1 \<le> n \<or> maxRetries oc = None \<and> n = 3 \<Longrightarrow>
   maxRetries_or_3 oc = int n \<and> 1 \<le> n"
  by (auto simp: maxRetries_or_3_def)

lemma ocr_first_usable:
  assumes "Option.bind options onCaptcha = None"
    and "Option.bind options ocr = Some oc"
    and "maxRetries oc = Some (int n) \<and> 1 \<le> n \<or> maxRetries oc = None \<and> n = 3"
    and "1 \<le> k" and "k \<le> n"
    and "\<forall>j<k - 1. isl (ocr_attempt E (length log + j))"
    and "ocr_attempt E (length log + (k - 1)) = Inr t"
  shows "resolve_captcha E options capthas_id c e log =
     (Inr \<lparr>id = capthas_id, cookie = c, execution = e, captcha = Some t\<rparr>,
      log @ replicate k (ocr_request E (captchaUrl capthas_id (Math_random_toString E)) (token oc) c))"
proof -
  have b: "maxRetries_or_3 oc = int n" using bound_of [OF assms(3)] by simp
  have "0 + int (k - 1) < maxRetries_or_3 oc" using assms(4,5) b by simp
  from ocr_loop_first_success [OF assms(6,7) this]
  show ?thesis using assms(4) by (simp add: resolve_by_ocr [OF assms(1,2)])
qed

lemma ocr_exhausted:
  assumes "Option.bind options onCaptcha = None"
    and "Option.bind options ocr = Some oc"
    and "maxRetries oc = Some (int n) \<and> 1 \<le> n \<or> maxRetries oc = None \<and> n = 3"
    and "\<forall>j<n - 1. isl (ocr_attempt E (length log + j))"
    and "ocr_attempt E (length log + (n - 1)) = Inl err"
  shows "resolve_captcha E options capthas_id c e log =
     (Inl err,
      log @ replicate n (ocr_request E (captchaUrl capthas_id (Math_random_toString E)) (token oc) c))"
proof -
  have b: "maxRetries_or_3 oc = int n" "1 \<le> n" using bound_of [OF assms(3)] by simp_all
  have "0 + int (Suc (n - 1)) = maxRetries_or_3 oc" using b by simp
  from ocr_loop_all_fail [OF assms(4,5) this]
  show ?thesis using b(2) by (simp add: resolve_by_ocr [OF assms(1,2)])
qed

text \<open>
  Once the session data is there and the credentials are encoded, the next request of
  \<open>login\<close> is the credential submission, whatever comes after it.
\<close>

lemma login_log_after_bootstrap:
  assumes "getCookieAndExecution E options log = (Inr sd, log1)"
    and "encodeURIComponent E username = Inr u"
    and "encodeURIComponent E password = Inr p"
  shows "\<exists>extra. snd (login E username password options log) =
     log1 @ submit_request (ascii ''username='' @ u @ ascii ''&password='' @ p) sd # extra"
proof (cases "sso E (length log1)")
  case (Rejected m)
  then show ?thesis using assms by (simp add: login_def fetch_def)
next
  case (Resolved response)
  let ?req = "submit_request (ascii ''username='' @ u @ ascii ''&password='' @ p) sd"
  show ?thesis
  proof (cases "ticket_of E response")
    case (Inl err)
    then show ?thesis using assms Resolved by (simp add: login_def fetch_def)
  next
    case (Inr ticket)
    obtain extra where "snd (exchange_ticket E ticket options (log1 @ [?req])) = (log1 @ [?req]) @ extra"
      using quiet_exchange_ticket [of "log1 @ [?req]" E ticket options] by (auto simp: quiet_def)
    then show ?thesis
      using assms Resolved Inr by (intro exI [of _ extra]) (simp add: login_def fetch_def)
  qed
qed

lemma submit_request_fields:
  "req_method (submit_request bodyp sd) = POST"
  "url (submit_request bodyp sd) = login_url"
  "body (submit_request bodyp sd) = Some (Text (submit_body bodyp sd))"
  by (simp_all add: submit_request_def)

lemma submit_body_captcha:
  "t \<noteq> [] \<Longrightarrow>
   submit_body bodyp \<lparr>id = i, cookie = c, execution = e, captcha = Some t\<rparr> =
     bodyp @ ascii ''&captcha='' @ t @
     ascii ''&submit=%E7%99%BB%E5%BD%95&type=username_password&execution='' @ e @
     ascii ''&_eventId=submit''"
  by (simp add: submit_body_def)

text \<open>The session bootstrap on a page with a captcha, under the OCR strategy.\<close>

lemma bootstrap_ocr_text:
  assumes "Option.bind options onCaptcha = None"
    and "Option.bind options ocr = Some oc"
    and "maxRetries oc = Some (int n) \<and> 1 \<le> n \<or> maxRetries oc = None \<and> n = 3"
    and "1 \<le> k" and "k \<le> n"
    and "sso E (length log) = Resolved res"
    and "first_cookie res = Some c" and "c \<noteq> []"
    and "match_execution (body_text res) = Some e"
    and "match_captcha (body_text res) = Some capthas_id" and "capthas_id \<noteq> []"
    and "\<forall>j<k - 1. isl (ocr_attempt E (length log + 1 + j))"
    and "ocr_attempt E (length log + 1 + (k - 1)) = Inr t"
  shows "getCookieAndExecution E options log =
     (Inr \<lparr>id = capthas_id, cookie = c, execution = e, captcha = Some t\<rparr>,
      log @ [login_page_request] @
      replicate k (ocr_request E (captchaUrl capthas_id (Math_random_toString E)) (token oc) c))"
proof -
  have fails: "\<forall>j<k - 1. isl (ocr_attempt E (length (log @ [login_page_request]) + j))"
    using assms(12) by simp
  have reads: "ocr_attempt E (length (log @ [login_page_request]) + (k - 1)) = Inr t"
    using assms(13) by simp
  show ?thesis
    using assms(7-11) ocr_first_usable [OF assms(1-5) fails reads, of capthas_id c e]
    by (simp add: getCookieAndExecution_def page_fetch [OF assms(6)])
qed

lemma bootstrap_ocr_exhausted:
  assumes "Option.bind options onCaptcha = None"
    and "Option.bind options ocr = Some oc"
    and "maxRetries oc = Some (int n) \<and> 1 \<le> n \<or> maxRetries oc = None \<and> n = 3"
    and "sso E (length log) = Resolved res"
    and "first_cookie res = Some c" and "c \<noteq> []"
    and "match_execution (body_text res) = Some e"
    and "match_captcha (body_text res) = Some capthas_id" and "capthas_id \<noteq> []"
    and "\<forall>j<n - 1. isl (ocr_attempt E (length log + 1 + j))"
    and "ocr_attempt E (length log + 1 + (n - 1)) = Inl err"
  shows "getCookieAndExecution E options log =
     (Inl err,
      log @ [login_page_request] @
      replicate n (ocr_request E (captchaUrl capthas_id (Math_random_toString E)) (token oc) c))"
proof -
  have fails: "\<forall>j<n - 1. isl (ocr_attempt E (length (log @ [login_page_request]) + j))"
    using assms(10) by simp
  have last: "ocr_attempt E (length (log @ [login_page_request]) + (n - 1)) = Inl err"
    using assms(11) by simp
  show ?thesis
    using assms(5-9) ocr_exhausted [OF assms(1-3) fails last, of capthas_id c e]
    by (simp add: getCookieAndExecution_def page_fetch [OF assms(4)])
qed

text \<open>
  C2. Let the OCR strategy run (no callback, \<^verbatim>\<open>ocr\<close> configured) with the bound \<open>n\<close>:
  \<^verbatim>\<open>maxRetries\<close> is \<open>n \<ge> 1\<close>, or it is absent and \<open>n = 3\<close>. The outcome of attempt \<open>j\<close>
  (from 1) of a captcha step entered with the log \<open>log\<close> is
  \<open>ocr_attempt E (length log + (j - 1))\<close>.
  \<^item> If attempt \<open>k \<le> n\<close> is the first to return a text, the captcha step returns the
    session data with that text, after exactly \<open>k\<close> requests to the OCR service.
  \<^item> If all \<open>n\<close> attempts fail, the step throws the error of attempt \<open>n\<close>, unchanged, after
    exactly \<open>n\<close> requests; the earlier errors appear nowhere.
  \<^item> For \<open>login\<close> on a page with a cookie, an \<^verbatim>\<open>execution\<close> value and a captcha id, when
    attempt \<open>k \<le> n\<close> is the first to return a text (so for failures of attempts 1 and 2
    and a text from attempt 3 with the bound 3): the requests of \<open>login\<close> start with the
    page, \<open>k\<close> OCR requests and the credential submission; the submission is a \<^verbatim>\<open>POST\<close> to
    the login URL whose body is the credentials, \<^verbatim>\<open>&captcha=\<close> with that text, and the
    fixed fields with the \<^verbatim>\<open>execution\<close> value; and \<open>login\<close> returns the login result
    whenever the steps after the submission succeed.
  \<^item> For \<open>login\<close> on such a page, when all \<open>n\<close> attempts fail: \<open>login\<close> throws the error of
    attempt \<open>n\<close>, and its requests are the page and the \<open>n\<close> OCR requests.
\<close>

theorem ocr_retries:
  assumes "Option.bind options onCaptcha = None"
    and "Option.bind options ocr = Some oc"
    and "maxRetries oc = Some (int n) \<and> 1 \<le> n \<or> maxRetries oc = None \<and> n = 3"
  shows
   "(\<forall>k t. 1 \<le> k \<and> k \<le> n \<and> (\<forall>j<k - 1. isl (ocr_attempt E (length log + j))) \<and>
       ocr_attempt E (length log + (k - 1)) = Inr t \<longrightarrow>
     resolve_captcha E options capthas_id c e log =
       (Inr \<lparr>id = capthas_id, cookie = c, execution = e, captcha = Some t\<rparr>,
        log @ replicate k
          (ocr_request E (captchaUrl capthas_id (Math_random_toString E)) (token oc) c))) \<and>
    (\<forall>err. (\<forall>j<n - 1. isl (ocr_attempt E (length log + j))) \<and>
       ocr_attempt E (length log + (n - 1)) = Inl err \<longrightarrow>
     resolve_captcha E options capthas_id c e log =
       (Inl err,
        log @ replicate n
          (ocr_request E (captchaUrl capthas_id (Math_random_toString E)) (token oc) c))) \<and>
    (\<forall>log0 res k t u p.
       1 \<le> k \<and> k \<le> n \<and> sso E (length log0) = Resolved res \<and>
       first_cookie res = Some c \<and> c \<noteq> [] \<and>
       match_execution (body_text res) = Some e \<and>
       match_captcha (body_text res) = Some capthas_id \<and> capthas_id \<noteq> [] \<and>
       (\<forall>j<k - 1. isl (ocr_attempt E (length log0 + 1 + j))) \<and>
       ocr_attempt E (length log0 + 1 + (k - 1)) = Inr t \<and>
       encodeURIComponent E username = Inr u \<and> encodeURIComponent E password = Inr p \<longrightarrow>
     take (length log0 + 2 + k) (snd (login E username password options log0)) =
       log0 @ [login_page_request] @
       replicate k (ocr_request E (captchaUrl capthas_id (Math_random_toString E)) (token oc) c) @
       [submit_request (ascii ''username='' @ u @ ascii ''&password='' @ p)
         \<lparr>id = capthas_id, cookie = c, execution = e, captcha = Some t\<rparr>] \<and>
     req_method (snd (login E username password options log0) ! (length log0 + 1 + k)) = POST \<and>
     url (snd (login E username password options log0) ! (length log0 + 1 + k)) = login_url \<and>
     body (snd (login E username password options log0) ! (length log0 + 1 + k)) =
       Some (Text (ascii ''username='' @ u @ ascii ''&password='' @ p @ ascii ''&captcha='' @ t @
         ascii ''&submit=%E7%99%BB%E5%BD%95&type=username_password&execution='' @ e @
         ascii ''&_eventId=submit'')) \<and>
     (\<forall>response ticket result log'.
        sso E (length log0 + 1 + k) = Resolved response \<and>
        ticket_of E response = Inr ticket \<and>
        exchange_ticket E ticket options
          (log0 @ [login_page_request] @
           replicate k (ocr_request E (captchaUrl capthas_id (Math_random_toString E)) (token oc) c) @
           [submit_request (ascii ''username='' @ u @ ascii ''&password='' @ p)
             \<lparr>id = capthas_id, cookie = c, execution = e, captcha = Some t\<rparr>]) =
          (Inr result, log') \<longrightarrow>
        login E username password options log0 = (Inr result, log'))) \<and>
    (\<forall>log0 res err.
       sso E (length log0) = Resolved res \<and>
       first_cookie res = Some c \<and> c \<noteq> [] \<and>
       match_execution (body_text res) = Some e \<and>
       match_captcha (body_text res) = Some capthas_id \<and> capthas_id \<noteq> [] \<and>
       (\<forall>j<n - 1. isl (ocr_attempt E (length log0 + 1 + j))) \<and>
       ocr_attempt E (length log0 + 1 + (n - 1)) = Inl err \<longrightarrow>
     login E username password options log0 =
       (Inl err,
        log0 @ [login_page_request] @
        replicate n (ocr_request E (captchaUrl capthas_id (Math_random_toString E)) (token oc) c)))"
proof -
  let ?req = "ocr_request E (captchaUrl capthas_id (Math_random_toString E)) (token oc) c"
  have first: "\<forall>k t. 1 \<le> k \<and> k \<le> n \<and> (\<forall>j<k - 1. isl (ocr_attempt E (length log + j))) \<and>
       ocr_attempt E (length log + (k - 1)) = Inr t \<longrightarrow>
     resolve_captcha E options capthas_id c e log =
       (Inr \<lparr>id = capthas_id, cookie = c, execution = e, captcha = Some t\<rparr>,
        log @ replicate k ?req)"
    using ocr_first_usable [OF assms, of _ E log _ capthas_id c e] by blast
  have last: "\<forall>err. (\<forall>j<n - 1. isl (ocr_attempt E (length log + j))) \<and>
       ocr_attempt E (length log + (n - 1)) = Inl err \<longrightarrow>
     resolve_captcha E options capthas_id c e log = (Inl err, log @ replicate n ?req)"
    using ocr_exhausted [OF assms, of E log _ capthas_id c e] by blast
  have submitted: "take (length log0 + 2 + k) (snd (login E username password options log0)) =
       log0 @ [login_page_request] @ replicate k ?req @
       [submit_request (ascii ''username='' @ u @ ascii ''&password='' @ p)
         \<lparr>id = capthas_id, cookie = c, execution = e, captcha = Some t\<rparr>] \<and>
     req_method (snd (login E username password options log0) ! (length log0 + 1 + k)) = POST \<and>
     url (snd (login E username password options log0) ! (length log0 + 1 + k)) = login_url \<and>
     body (snd (login E username password options log0) ! (length log0 + 1 + k)) =
       Some (Text (ascii ''username='' @ u @ ascii ''&password='' @ p @ ascii ''&captcha='' @ t @
         ascii ''&submit=%E7%99%BB%E5%BD%95&type=username_password&execution='' @ e @
         ascii ''&_eventId=submit'')) \<and>
     (\<forall>response ticket result log'.
        sso E (length log0 + 1 + k) = Resolved response \<and>
        ticket_of E response = Inr ticket \<and>
        exchange_ticket E ticket options
          (log0 @ [login_page_request] @
           replicate k (ocr_request E (captchaUrl capthas_id (Math_random_toString E)) (token oc) c) @
           [submit_request (ascii ''username='' @ u @ ascii ''&password='' @ p)
             \<lparr>id = capthas_id, cookie = c, execution = e, captcha = Some t\<rparr>]) =
          (Inr result, log') \<longrightarrow>
        login E username password options log0 = (Inr result, log'))"
    if h: "1 \<le> k \<and> k \<le> n \<and> sso E (length log0) = Resolved res \<and>
       first_cookie res = Some c \<and> c \<noteq> [] \<and>
       match_execution (body_text res) = Some e \<and>
       match_captcha (body_text res) = Some capthas_id \<and> capthas_id \<noteq> [] \<and>
       (\<forall>j<k - 1. isl (ocr_attempt E (length log0 + 1 + j))) \<and>
       ocr_attempt E (length log0 + 1 + (k - 1)) = Inr t \<and>
       encodeURIComponent E username = Inr u \<and> encodeURIComponent E password = Inr p"
    for log0 res k t u p
  proof -
    let ?sd = "\<lparr>id = capthas_id, cookie = c, execution = e, captcha = Some t\<rparr>"
    let ?log1 = "log0 @ [login_page_request] @ replicate k ?req"
    let ?submit = "submit_request (ascii ''username='' @ u @ ascii ''&password='' @ p) ?sd"
    have g: "getCookieAndExecution E options log0 = (Inr ?sd, ?log1)"
      using h by (intro bootstrap_ocr_text [OF assms]) blast+
    have enc: "encodeURIComponent E username = Inr u" "encodeURIComponent E password = Inr p"
      using h by blast+
    have t: "t \<noteq> []"
      using h ocr_attempt_usable by blast
    have len: "length ?log1 = length log0 + 1 + k"
      by simp
    obtain extra where l: "snd (login E username password options log0) = ?log1 @ ?submit # extra"
      using login_log_after_bootstrap [OF g enc] by blast
    have tk: "take (length log0 + 2 + k) (snd (login E username password options log0)) =
        ?log1 @ [?submit]"
    proof -
      have "length log0 + 2 + k = Suc (length ?log1)"
        by simp
      then show ?thesis
        unfolding l by (simp del: append_assoc replicate_Suc)
    qed
    have nth: "snd (login E username password options log0) ! (length log0 + 1 + k) = ?submit"
      unfolding l len [symmetric] by (rule nth_append_length)
    have ok: "login E username password options log0 = (Inr result, log')"
      if "sso E (length log0 + 1 + k) = Resolved response" "ticket_of E response = Inr ticket"
        "exchange_ticket E ticket options
          (log0 @ [login_page_request] @ replicate k ?req @ [?submit]) = (Inr result, log')"
      for response ticket result log'
    proof -
      have "sso E (length ?log1) = Resolved response"
        using that(1) by (simp add: add.commute add.left_commute)
      moreover have "exchange_ticket E ticket options (?log1 @ [?submit]) = (Inr result, log')"
        using that(3) by simp
      ultimately show ?thesis
        using that(2) by (simp add: login_def g enc fetch_def)
    qed
    show ?thesis
      using tk nth ok t
      by (simp add: submit_request_fields submit_body_captcha)
  qed
  have none: "login E username password options log0 =
       (Inl err, log0 @ [login_page_request] @ replicate n ?req)"
    if h: "sso E (length log0) = Resolved res \<and>
       first_cookie res = Some c \<and> c \<noteq> [] \<and>
       match_execution (body_text res) = Some e \<and>
       match_captcha (body_text res) = Some capthas_id \<and> capthas_id \<noteq> [] \<and>
       (\<forall>j<n - 1. isl (ocr_attempt E (length log0 + 1 + j))) \<and>
       ocr_attempt E (length log0 + 1 + (n - 1)) = Inl err"
    for log0 res err
  proof -
    have "getCookieAndExecution E options log0 =
        (Inl err, log0 @ [login_page_request] @ replicate n ?req)"
      using h by (intro bootstrap_ocr_exhausted [OF assms]) blast+
    then show ?thesis
      by (simp add: login_def)
  qed
  from first last submitted none show ?thesis
    by blast
qed

lemma flaky_attempts:
  "isl (ocr_attempt (campus flaky) 1)" "isl (ocr_attempt (campus flaky) 2)"
  "ocr_attempt (campus flaky) 3 = Inr (ascii ''x7k2'')"
  by (simp_all add: ocr_attempt_def ocr_result_def campus_def flaky_def ocr_reply_def
      sample_response_def ascii_def)

lemma hopeless_attempts:
  "isl (ocr_attempt (campus hopeless) 1)" "isl (ocr_attempt (campus hopeless) 2)"
  "ocr_attempt (campus hopeless) 3 = Inl (OCRError (ocr_failed @ ascii ''Unknown error''))"
  by (simp_all add: ocr_attempt_def ocr_result_def campus_def hopeless_def ocr_reply_def
      sample_response_def)

lemma campus_ocr_request:
  "ocr_request (campus s) (captchaUrl (ascii ''8471'') (Math_random_toString (campus s)))
     (ascii ''secret'') (ascii ''JSESSIONID=0A1B2C'') = sample_ocr_request"
  by (simp add: ocr_request_def captchaUrl_def slice_def campus_def sample_toString_def
      sample_captcha_url_def sample_ocr_request_def ocr_url_def ascii_def)

lemma campus_page:
  "sso (campus s) (length ([] :: request list)) = Resolved (login_page (Some session_cookie) captcha_html)"
  by (simp add: campus_def)

lemma campus_ticket:
  "sso (campus s) (length ([] :: request list) + 4) =
     Resolved (redirect_to (ascii ''https://ucloud.bupt.edu.cn/?ticket=ST-42''))"
  "ticket_of (campus s) (redirect_to (ascii ''https://ucloud.bupt.edu.cn/?ticket=ST-42'')) =
     Inr (ascii ''ST-42'')"
  by (simp_all add: campus_def ticket_of_def redirect_to_def sample_URL_search_def sample_get_def
      ascii_def)

lemma campus_exchange:
  "exchange_ticket (campus s) (ascii ''ST-42'') (Some (ocr_only m)) log =
     (Inr sample_result,
      log @ [ticket_request (ascii ''ST-42''), roles_request (ascii ''rt-1''),
             roles_request (ascii ''rt-1''), refresh_request (ascii ''rt-1'') (Some (ascii ''101''))])"
  by (simp add: exchange_ticket_def getUserRoles_def refresh_def refresh_post_def fetch_def
      campus_def ok_def sample_response_def ocr_only_def sample_user_def student_role_def
      sample_result_def)

theorem ocr_retries_witness:
  "Option.bind (Some (ocr_only (Some 3))) onCaptcha = None \<and>
   Option.bind (Some (ocr_only (Some 3))) ocr = Some \<lparr>token = ascii ''secret'', maxRetries = Some 3\<rparr> \<and>
   isl (ocr_attempt (campus flaky) 1) \<and> isl (ocr_attempt (campus flaky) 2) \<and>
   ocr_attempt (campus flaky) 3 = Inr (ascii ''x7k2'') \<and>
   resolve_captcha (campus flaky) (Some (ocr_only (Some 3))) (ascii ''8471'')
       (ascii ''JSESSIONID=0A1B2C'') (ascii ''e1s1'') [login_page_request] =
     (Inr captcha_session,
      [login_page_request, sample_ocr_request, sample_ocr_request, sample_ocr_request]) \<and>
   Option.bind (Some (ocr_only None)) ocr = Some \<lparr>token = ascii ''secret'', maxRetries = None\<rparr> \<and>
   isl (ocr_attempt (campus hopeless) 1) \<and> isl (ocr_attempt (campus hopeless) 2) \<and>
   ocr_attempt (campus hopeless) 3 = Inl (OCRError (ocr_failed @ ascii ''Unknown error'')) \<and>
   resolve_captcha (campus hopeless) (Some (ocr_only None)) (ascii ''8471'')
       (ascii ''JSESSIONID=0A1B2C'') (ascii ''e1s1'') [login_page_request] =
     (Inl (OCRError (ocr_failed @ ascii ''Unknown error'')),
      [login_page_request, sample_ocr_request, sample_ocr_request, sample_ocr_request]) \<and>
   req_method (snd (login (campus flaky) (ascii ''2021211001'') (ascii ''hunter2'')
       (Some (ocr_only (Some 3))) []) ! 4) = POST \<and>
   url (snd (login (campus flaky) (ascii ''2021211001'') (ascii ''hunter2'')
       (Some (ocr_only (Some 3))) []) ! 4) = login_url \<and>
   body (snd (login (campus flaky) (ascii ''2021211001'') (ascii ''hunter2'')
       (Some (ocr_only (Some 3))) []) ! 4) =
     Some (Text (ascii (''username=2021211001&password=hunter2&captcha=x7k2'' @
       ''&submit=%E7%99%BB%E5%BD%95&type=username_password&execution=e1s1&_eventId=submit''))) \<and>
   login (campus flaky) (ascii ''2021211001'') (ascii ''hunter2'') (Some (ocr_only (Some 3))) [] =
     (Inr sample_result,
      [login_page_request, sample_ocr_request, sample_ocr_request, sample_ocr_request,
       submit_request (ascii ''username=2021211001&password=hunter2'') captcha_session,
       ticket_request (ascii ''ST-42''), roles_request (ascii ''rt-1''),
       roles_request (ascii ''rt-1''), refresh_request (ascii ''rt-1'') (Some (ascii ''101''))]) \<and>
   login (campus hopeless) (ascii ''2021211001'') (ascii ''hunter2'') (Some (ocr_only None)) [] =
     (Inl (OCRError (ocr_failed @ ascii ''Unknown error'')),
      [login_page_request, sample_ocr_request, sample_ocr_request, sample_ocr_request])"
proof -
  let ?c = "ascii ''JSESSIONID=0A1B2C''" and ?e = "ascii ''e1s1''" and ?i = "ascii ''8471''"
  let ?page = "login_page (Some session_cookie) captcha_html"
  let ?u = "ascii ''2021211001''" and ?p = "ascii ''hunter2''"
  have o1: "Option.bind (Some (ocr_only m)) onCaptcha = None" for m
    by (simp add: ocr_only_def)
  have o2: "Option.bind (Some (ocr_only m)) ocr = Some \<lparr>token = ascii ''secret'', maxRetries = m\<rparr>" for m
    by (simp add: ocr_only_def)
  have n3: "maxRetries \<lparr>token = ascii ''secret'', maxRetries = Some 3\<rparr> = Some (int 3) \<and> 1 \<le> (3::nat) \<or>
      maxRetries \<lparr>token = ascii ''secret'', maxRetries = Some 3\<rparr> = None \<and> (3::nat) = 3"
    by simp
  have nd: "maxRetries \<lparr>token = ascii ''secret'', maxRetries = None\<rparr> = Some (int 3) \<and> 1 \<le> (3::nat) \<or>
      maxRetries \<lparr>token = ascii ''secret'', maxRetries = None\<rparr> = None \<and> (3::nat) = 3"
    by simp
  have two: "\<forall>j<3 - 1. isl (ocr_attempt (campus s) (length [login_page_request] + j))"
    if "isl (ocr_attempt (campus s) 1)" "isl (ocr_attempt (campus s) 2)" for s
    using that by (auto simp: less_Suc_eq numeral_2_eq_2)
  have two': "\<forall>j<3 - 1. isl (ocr_attempt (campus s) (length ([] :: request list) + 1 + j))"
    if "isl (ocr_attempt (campus s) 1)" "isl (ocr_attempt (campus s) 2)" for s
    using that by (auto simp: less_Suc_eq numeral_2_eq_2)
  have sd: "\<lparr>id = ?i, cookie = ?c, execution = ?e, captcha = Some (ascii ''x7k2'')\<rparr> = captcha_session"
    by (simp add: captcha_session_def)
  have bodyp: "ascii ''username='' @ ascii ''2021211001'' @ ascii ''&password='' @ ascii ''hunter2'' =
      ascii ''username=2021211001&password=hunter2''"
    by (simp add: ascii_def)
  have h1: "sso (campus s) (length ([] :: request list)) = Resolved ?page" for s
    by (rule campus_page)
  have h2: "first_cookie ?page = Some ?c"
    by (rule sample_cookie)
  have h3: "?c \<noteq> []" "?i \<noteq> []"
    by (simp_all add: ascii_def)
  have h4: "match_execution (body_text ?page) = Some ?e"
    by (simp add: body_text_login_page captcha_execution)
  have h5: "match_captcha (body_text ?page) = Some ?i"
    by (simp add: body_text_login_page captcha_id)
  have enc: "encodeURIComponent (campus s) x = Inr x" for s x
    by (simp add: campus_def)
  note A = ocr_retries [OF o1 o2 n3, of "campus flaky" "[login_page_request]" ?i ?c ?e ?u ?p]
  have a: "resolve_captcha (campus flaky) (Some (ocr_only (Some 3))) ?i ?c ?e [login_page_request] =
     (Inr captcha_session,
      [login_page_request, sample_ocr_request, sample_ocr_request, sample_ocr_request])"
  proof -
    have "1 \<le> (3::nat) \<and> (3::nat) \<le> 3 \<and>
        (\<forall>j<3 - 1. isl (ocr_attempt (campus flaky) (length [login_page_request] + j))) \<and>
        ocr_attempt (campus flaky) (length [login_page_request] + (3 - 1)) = Inr (ascii ''x7k2'')"
      using two [OF flaky_attempts(1,2)] flaky_attempts(3) by (simp add: numeral_3_eq_3)
    with A have "resolve_captcha (campus flaky) (Some (ocr_only (Some 3))) ?i ?c ?e
        [login_page_request] =
      (Inr \<lparr>id = ?i, cookie = ?c, execution = ?e, captcha = Some (ascii ''x7k2'')\<rparr>,
       [login_page_request] @ replicate 3
         (ocr_request (campus flaky) (captchaUrl ?i (Math_random_toString (campus flaky)))
            (token \<lparr>token = ascii ''secret'', maxRetries = Some 3\<rparr>) ?c))"
      by blast
    then show ?thesis
      by (simp add: campus_ocr_request sd numeral_3_eq_3)
  qed
  note B = ocr_retries [OF o1 o2 nd, of "campus hopeless" "[login_page_request]" ?i ?c ?e ?u ?p]
  have b: "resolve_captcha (campus hopeless) (Some (ocr_only None)) ?i ?c ?e [login_page_request] =
     (Inl (OCRError (ocr_failed @ ascii ''Unknown error'')),
      [login_page_request, sample_ocr_request, sample_ocr_request, sample_ocr_request])"
  proof -
    have "(\<forall>j<3 - 1. isl (ocr_attempt (campus hopeless) (length [login_page_request] + j))) \<and>
        ocr_attempt (campus hopeless) (length [login_page_request] + (3 - 1)) =
          Inl (OCRError (ocr_failed @ ascii ''Unknown error''))"
      using two [OF hopeless_attempts(1,2)] hopeless_attempts(3) by (simp add: numeral_3_eq_3)
    with B have "resolve_captcha (campus hopeless) (Some (ocr_only None)) ?i ?c ?e
        [login_page_request] =
      (Inl (OCRError (ocr_failed @ ascii ''Unknown error'')),
       [login_page_request] @ replicate 3
         (ocr_request (campus hopeless) (captchaUrl ?i (Math_random_toString (campus hopeless)))
            (token \<lparr>token = ascii ''secret'', maxRetries = None\<rparr>) ?c))"
      by blast
    then show ?thesis
      by (simp add: campus_ocr_request numeral_3_eq_3)
  qed
  let ?login = "login (campus flaky) ?u ?p (Some (ocr_only (Some 3))) []"
  let ?req = "ocr_request (campus flaky) (captchaUrl ?i (Math_random_toString (campus flaky)))
      (token \<lparr>token = ascii ''secret'', maxRetries = Some 3\<rparr>) ?c"
  let ?submit = "submit_request (ascii ''username='' @ ?u @ ascii ''&password='' @ ?p)
      \<lparr>id = ?i, cookie = ?c, execution = ?e, captcha = Some (ascii ''x7k2'')\<rparr>"
  let ?log' = "[login_page_request, sample_ocr_request, sample_ocr_request, sample_ocr_request,
      submit_request (ascii ''username=2021211001&password=hunter2'') captcha_session,
      ticket_request (ascii ''ST-42''), roles_request (ascii ''rt-1''),
      roles_request (ascii ''rt-1''), refresh_request (ascii ''rt-1'') (Some (ascii ''101''))]"
  note C = ocr_retries [OF o1 o2 n3, of "campus flaky" "[]" ?i ?c ?e ?u ?p]
  have hyp: "1 \<le> (3::nat) \<and> (3::nat) \<le> 3 \<and>
      sso (campus flaky) (length ([] :: request list)) = Resolved ?page \<and>
      first_cookie ?page = Some ?c \<and> ?c \<noteq> [] \<and>
      match_execution (body_text ?page) = Some ?e \<and>
      match_captcha (body_text ?page) = Some ?i \<and> ?i \<noteq> [] \<and>
      (\<forall>j<3 - 1. isl (ocr_attempt (campus flaky) (length ([] :: request list) + 1 + j))) \<and>
      ocr_attempt (campus flaky) (length ([] :: request list) + 1 + (3 - 1)) = Inr (ascii ''x7k2'') \<and>
      encodeURIComponent (campus flaky) ?u = Inr ?u \<and> encodeURIComponent (campus flaky) ?p = Inr ?p"
    using h1 h2 h3 h4 h5 two' [OF flaky_attempts(1,2)] flaky_attempts(3) enc
    by (simp add: numeral_3_eq_3)
  have c1: "req_method (snd ?login ! (length ([] :: request list) + 1 + 3)) = POST"
    using C hyp by blast
  have c2: "url (snd ?login ! (length ([] :: request list) + 1 + 3)) = login_url"
    using C hyp by blast
  have c3: "body (snd ?login ! (length ([] :: request list) + 1 + 3)) =
      Some (Text (ascii ''username='' @ ?u @ ascii ''&password='' @ ?p @ ascii ''&captcha='' @
        ascii ''x7k2'' @ ascii ''&submit=%E7%99%BB%E5%BD%95&type=username_password&execution='' @
        ?e @ ascii ''&_eventId=submit''))"
    using C hyp by blast
  have c4: "?login = (Inr sample_result, ?log')"
  proof -
    have ex: "exchange_ticket (campus flaky) (ascii ''ST-42'') (Some (ocr_only (Some 3)))
         ([] @ [login_page_request] @ replicate 3 ?req @ [?submit]) = (Inr sample_result, ?log')"
      by (simp add: campus_exchange campus_ocr_request numeral_3_eq_3 bodyp sd)
    have h9: "sso (campus flaky) (length ([] :: request list) + 1 + 3) =
        Resolved (redirect_to (ascii ''https://ucloud.bupt.edu.cn/?ticket=ST-42''))"
      using campus_ticket(1) [of flaky] by simp
    have h10: "ticket_of (campus flaky) (redirect_to (ascii ''https://ucloud.bupt.edu.cn/?ticket=ST-42'')) =
        Inr (ascii ''ST-42'')"
      by (rule campus_ticket(2))
    from C hyp have "sso (campus flaky) (length ([] :: request list) + 1 + 3) =
         Resolved (redirect_to (ascii ''https://ucloud.bupt.edu.cn/?ticket=ST-42'')) \<and>
       ticket_of (campus flaky) (redirect_to (ascii ''https://ucloud.bupt.edu.cn/?ticket=ST-42'')) =
         Inr (ascii ''ST-42'') \<and>
       exchange_ticket (campus flaky) (ascii ''ST-42'') (Some (ocr_only (Some 3)))
         ([] @ [login_page_request] @ replicate 3 ?req @ [?submit]) = (Inr sample_result, ?log') \<longrightarrow>
       ?login = (Inr sample_result, ?log')"
      by blast
    with h9 h10 ex show ?thesis
      by blast
  qed
  note D = ocr_retries [OF o1 o2 nd, of "campus hopeless" "[]" ?i ?c ?e ?u ?p]
  have d: "login (campus hopeless) ?u ?p (Some (ocr_only None)) [] =
     (Inl (OCRError (ocr_failed @ ascii ''Unknown error'')),
      [login_page_request, sample_ocr_request, sample_ocr_request, sample_ocr_request])"
  proof -
    have "sso (campus hopeless) (length ([] :: request list)) = Resolved ?page \<and>
        first_cookie ?page = Some ?c \<and> ?c \<noteq> [] \<and>
        match_execution (body_text ?page) = Some ?e \<and>
        match_captcha (body_text ?page) = Some ?i \<and> ?i \<noteq> [] \<and>
        (\<forall>j<3 - 1. isl (ocr_attempt (campus hopeless) (length ([] :: request list) + 1 + j))) \<and>
        ocr_attempt (campus hopeless) (length ([] :: request list) + 1 + (3 - 1)) =
          Inl (OCRError (ocr_failed @ ascii ''Unknown error''))"
      using h1 h2 h3 h4 h5 two' [OF hopeless_attempts(1,2)] hopeless_attempts(3)
      by (simp add: numeral_3_eq_3)
    with D have "login (campus hopeless) ?u ?p (Some (ocr_only None)) [] =
      (Inl (OCRError (ocr_failed @ ascii ''Unknown error'')),
       [] @ [login_page_request] @ replicate 3
         (ocr_request (campus hopeless) (captchaUrl ?i (Math_random_toString (campus hopeless)))
            (token \<lparr>token = ascii ''secret'', maxRetries = None\<rparr>) ?c))"
      by blast
    then show ?thesis
      by (simp add: campus_ocr_request numeral_3_eq_3)
  qed
  have four: "length ([] :: request list) + 1 + 3 = 4"
    by simp
  have lit: "ascii ''username='' @ ?u @ ascii ''&password='' @ ?p @ ascii ''&captcha='' @
        ascii ''x7k2'' @ ascii ''&submit=%E7%99%BB%E5%BD%95&type=username_password&execution='' @
        ?e @ ascii ''&_eventId=submit'' =
      ascii (''username=2021211001&password=hunter2&captcha=x7k2'' @
       ''&submit=%E7%99%BB%E5%BD%95&type=username_password&execution=e1s1&_eventId=submit'')"
    by (simp add: ascii_def)
  from o1 [of "Some 3"] o2 [of "Some 3"] o2 [of None] flaky_attempts hopeless_attempts a b
    c1 [unfolded four] c2 [unfolded four] c3 [unfolded four lit] c4 d
  show ?thesis by blast
qed

text \<open>
  The bound of the loop. With \<^verbatim>\<open>maxRetries\<close> set to 0 (or left out: the falsy values) the
  bound is 3, the captcha step does what it does with \<^verbatim>\<open>maxRetries\<close> left out, it sends at
  least one and at most three requests to the OCR service, and exactly three when every
  attempt fails (the error thrown is then the third attempt's).
\<close>

theorem zero_maxRetries_is_three:
  assumes "Option.bind options onCaptcha = None"
    and "Option.bind options ocr = Some oc"
    and "maxRetries oc = Some 0 \<or> maxRetries oc = None"
  shows "maxRetries_or_3 oc = 3 \<and>
     resolve_captcha E options capthas_id c e log =
       resolve_captcha E (map_option (\<lambda>opts. opts\<lparr>ocr := Some (oc\<lparr>maxRetries := None\<rparr>)\<rparr>) options)
         capthas_id c e log \<and>
     (\<exists>k. 1 \<le> k \<and> k \<le> 3 \<and>
        snd (resolve_captcha E options capthas_id c e log) =
          log @ replicate k (ocr_request E (captchaUrl capthas_id (Math_random_toString E)) (token oc) c)) \<and>
     ((\<forall>j<3. isl (ocr_attempt E (length log + j))) \<longrightarrow>
        resolve_captcha E options capthas_id c e log =
          (Inl (projl (ocr_attempt E (length log + 2))),
           log @ replicate 3 (ocr_request E (captchaUrl capthas_id (Math_random_toString E)) (token oc) c)))"
proof -
  let ?req = "ocr_request E (captchaUrl capthas_id (Math_random_toString E)) (token oc) c"
  have b: "maxRetries_or_3 oc = 3"
    using assms(3) by (auto simp: maxRetries_or_3_def)
  obtain opts where opts: "options = Some opts" "onCaptcha opts = None" "ocr opts = Some oc"
    using assms(1,2) by (cases options) auto
  have same: "resolve_captcha E options capthas_id c e log =
       resolve_captcha E (map_option (\<lambda>opts. opts\<lparr>ocr := Some (oc\<lparr>maxRetries := None\<rparr>)\<rparr>) options)
         capthas_id c e log"
    using opts assms(3) by (auto simp: resolve_captcha_def maxRetries_or_3_def)
  have "0 + int (Suc 2) = maxRetries_or_3 oc" using b by simp
  from ocr_loop_attempts [OF this, of E ?req None log]
  obtain k where k: "1 \<le> k" "k \<le> 3"
    "snd (ocr_loop E ?req (maxRetries_or_3 oc) 0 None log) = log @ replicate k ?req"
    by auto
  have some: "\<exists>k. 1 \<le> k \<and> k \<le> 3 \<and>
        snd (resolve_captcha E options capthas_id c e log) = log @ replicate k ?req"
    using k by (intro exI [of _ k]) (simp add: resolve_by_ocr_log [OF assms(1,2)])
  have all: "(\<forall>j<3. isl (ocr_attempt E (length log + j))) \<longrightarrow>
        resolve_captcha E options capthas_id c e log =
          (Inl (projl (ocr_attempt E (length log + 2))), log @ replicate 3 ?req)"
  proof
    assume f: "\<forall>j<3. isl (ocr_attempt E (length log + j))"
    then have f2: "\<forall>j<2. isl (ocr_attempt E (length log + j))" by simp
    from f have "2 < (3::nat) \<longrightarrow> isl (ocr_attempt E (length log + 2))" by blast
    then have "isl (ocr_attempt E (length log + 2))" by simp
    then have l: "ocr_attempt E (length log + 2) = Inl (projl (ocr_attempt E (length log + 2)))"
      by simp
    have "0 + int (Suc 2) = maxRetries_or_3 oc" using b by simp
    from ocr_loop_all_fail [OF f2 l this]
    show "resolve_captcha E options capthas_id c e log =
          (Inl (projl (ocr_attempt E (length log + 2))), log @ replicate 3 ?req)"
      by (simp add: resolve_by_ocr [OF assms(1,2)] numeral_3_eq_3)
  qed
  from b same some all show ?thesis by blast
qed

theorem zero_maxRetries_is_three_witness:
  "Option.bind (Some (ocr_only (Some 0))) onCaptcha = None \<and>
   Option.bind (Some (ocr_only (Some 0))) ocr = Some \<lparr>token = ascii ''secret'', maxRetries = Some 0\<rparr> \<and>
   (maxRetries \<lparr>token = ascii ''secret'', maxRetries = Some 0\<rparr> = Some 0 \<or>
    maxRetries \<lparr>token = ascii ''secret'', maxRetries = Some 0\<rparr> = None) \<and>
   maxRetries_or_3 \<lparr>token = ascii ''secret'', maxRetries = Some 0\<rparr> = 3 \<and>
   isl (ocr_attempt (campus hopeless) 1) \<and> isl (ocr_attempt (campus hopeless) 2) \<and>
   isl (ocr_attempt (campus hopeless) 3) \<and>
   resolve_captcha (campus hopeless) (Some (ocr_only (Some 0))) (ascii ''8471'')
       (ascii ''JSESSIONID=0A1B2C'') (ascii ''e1s1'') [login_page_request] =
     (Inl (OCRError (ocr_failed @ ascii ''Unknown error'')),
      [login_page_request, sample_ocr_request, sample_ocr_request, sample_ocr_request])"
proof -
  let ?c = "ascii ''JSESSIONID=0A1B2C''" and ?e = "ascii ''e1s1''" and ?i = "ascii ''8471''"
  have o1: "Option.bind (Some (ocr_only (Some 0))) onCaptcha = None"
    by (simp add: ocr_only_def)
  have o2: "Option.bind (Some (ocr_only (Some 0))) ocr =
      Some \<lparr>token = ascii ''secret'', maxRetries = Some 0\<rparr>"
    by (simp add: ocr_only_def)
  have z: "maxRetries \<lparr>token = ascii ''secret'', maxRetries = Some 0\<rparr> = Some 0 \<or>
      maxRetries \<lparr>token = ascii ''secret'', maxRetries = Some 0\<rparr> = None"
    by simp
  have third: "isl (ocr_attempt (campus hopeless) 3)"
    by (simp add: hopeless_attempts(3))
  have three: "\<forall>j<3. isl (ocr_attempt (campus hopeless) (length [login_page_request] + j))"
    using hopeless_attempts(1,2) third by (auto simp: less_Suc_eq numeral_3_eq_3 numeral_2_eq_2)
  have last: "projl (ocr_attempt (campus hopeless) (length [login_page_request] + 2)) =
      OCRError (ocr_failed @ ascii ''Unknown error'')"
    using hopeless_attempts(3) by (simp add: numeral_3_eq_3)
  have reqs: "[login_page_request] @ replicate 3 sample_ocr_request =
      [login_page_request, sample_ocr_request, sample_ocr_request, sample_ocr_request]"
    by (simp add: numeral_3_eq_3)
  have tok: "token \<lparr>token = ascii ''secret'', maxRetries = Some 0\<rparr> = ascii ''secret''"
    by simp
  note Z = zero_maxRetries_is_three [OF o1 o2 z, of "campus hopeless" ?i ?c ?e "[login_page_request]"]
  have "maxRetries_or_3 \<lparr>token = ascii ''secret'', maxRetries = Some 0\<rparr> = 3"
    using Z by blast
  moreover have "resolve_captcha (campus hopeless) (Some (ocr_only (Some 0))) ?i ?c ?e
       [login_page_request] =
     (Inl (OCRError (ocr_failed @ ascii ''Unknown error'')),
      [login_page_request, sample_ocr_request, sample_ocr_request, sample_ocr_request])"
    using Z three unfolding tok campus_ocr_request last reqs by blast
  ultimately show ?thesis
    using o1 o2 z hopeless_attempts(1,2) third by blast
qed

text \<open>
  A negative \<^verbatim>\<open>maxRetries\<close> is truthy, so \<^verbatim>\<open>||\<close> keeps it: the condition of the loop of
  line 187 is false at once, no request goes to the OCR service, \<^verbatim>\<open>lastError\<close> is still
  \<^verbatim>\<open>null\<close> at line 212 and that is what is thrown.
\<close>

lemma negative_bound:
  assumes "Option.bind options onCaptcha = None"
    and "Option.bind options ocr = Some oc"
    and "maxRetries oc = Some m" and "m < 0"
  shows "maxRetries_or_3 oc = m"
    and "resolve_captcha E options capthas_id c e log = (Inl (Thrown (ascii ''null'')), log)"
proof -
  show b: "maxRetries_or_3 oc = m"
    using assms(3,4) by (simp add: maxRetries_or_3_def)
  have "\<not> 0 < maxRetries_or_3 oc"
    using b assms(4) by simp
  from ocr_loop_stop [OF this]
  show "resolve_captcha E options capthas_id c e log = (Inl (Thrown (ascii ''null'')), log)"
    by (simp add: resolve_by_ocr [OF assms(1,2)])
qed

text \<open>
  C10. The first half holds (\<open>zero_maxRetries_is_three\<close>); the last sentence does not.
  With the OCR strategy selected and \<^verbatim>\<open>maxRetries\<close> set to \<open>-1\<close>, on a login page with a
  captcha: the bound is \<open>-1\<close> and not 3, the only request of \<open>login\<close> is the one for the
  login page, so no OCR attempt is made, and \<open>login\<close> throws \<^verbatim>\<open>null\<close>, which is not an
  \<^verbatim>\<open>Error\<close>, where line 212 asserts with \<^verbatim>\<open>lastError!\<close> that an error was recorded.
\<close>

theorem negative_maxRetries_no_attempt:
  "Option.bind (Some (ocr_only (Some (- 1)))) onCaptcha = None \<and>
   Option.bind (Some (ocr_only (Some (- 1)))) ocr =
     Some \<lparr>token = ascii ''secret'', maxRetries = Some (- 1)\<rparr> \<and>
   maxRetries_or_3 \<lparr>token = ascii ''secret'', maxRetries = Some (- 1)\<rparr> = - 1 \<and>
   match_captcha (body_text (login_page (Some session_cookie) captcha_html)) = Some (ascii ''8471'') \<and>
   login (campus flaky) (ascii ''2021211001'') (ascii ''hunter2'') (Some (ocr_only (Some (- 1)))) [] =
     (Inl (Thrown (ascii ''null'')), [login_page_request]) \<and>
   filter to_ocr
     (snd (login (campus flaky) (ascii ''2021211001'') (ascii ''hunter2'')
        (Some (ocr_only (Some (- 1)))) [])) = [] \<and>
   instanceof_Error (Thrown (ascii ''null'')) = False"
proof -
  let ?c = "ascii ''JSESSIONID=0A1B2C''" and ?e = "ascii ''e1s1''" and ?i = "ascii ''8471''"
  let ?page = "login_page (Some session_cookie) captcha_html"
  have o1: "Option.bind (Some (ocr_only (Some (- 1)))) onCaptcha = None"
    by (simp add: ocr_only_def)
  have o2: "Option.bind (Some (ocr_only (Some (- 1)))) ocr =
      Some \<lparr>token = ascii ''secret'', maxRetries = Some (- 1)\<rparr>"
    by (simp add: ocr_only_def)
  have m: "maxRetries \<lparr>token = ascii ''secret'', maxRetries = Some (- 1)\<rparr> = Some (- 1)"
    by simp
  have neg: "(- 1 :: int) < 0"
    by simp
  have b: "maxRetries_or_3 \<lparr>token = ascii ''secret'', maxRetries = Some (- 1)\<rparr> = - 1"
    by (rule negative_bound(1) [OF o1 o2 m neg])
  have r: "resolve_captcha (campus flaky) (Some (ocr_only (Some (- 1)))) ?i ?c ?e
      [login_page_request] = (Inl (Thrown (ascii ''null'')), [login_page_request])"
    by (rule negative_bound(2) [OF o1 o2 m neg])
  have i: "?c \<noteq> []" "?i \<noteq> []"
    by (simp_all add: ascii_def)
  have id: "match_captcha (body_text ?page) = Some ?i"
    by (simp add: body_text_login_page captcha_id)
  have g: "getCookieAndExecution (campus flaky) (Some (ocr_only (Some (- 1)))) [] =
      (Inl (Thrown (ascii ''null'')), [login_page_request])"
    using i r
    by (simp add: getCookieAndExecution_def page_fetch [OF campus_page] sample_cookie
        body_text_login_page captcha_execution captcha_id)
  have l: "login (campus flaky) (ascii ''2021211001'') (ascii ''hunter2'')
      (Some (ocr_only (Some (- 1)))) [] = (Inl (Thrown (ascii ''null'')), [login_page_request])"
    using g by (simp add: login_def)
  have q: "filter to_ocr [login_page_request] = []"
    by (simp add: not_ocr(1))
  from o1 o2 b id l q show ?thesis
    by simp
qed

end
